theory Spec2Isabelle
  imports Complex_Main
begin

section \<open>JavaScript numbers\<close>

text \<open>
  \<^verbatim>\<open>Shop.tsx\<close> computes the checkout total with the JavaScript type \<^verbatim>\<open>number\<close>
  (\<^verbatim>\<open>interface Item { price: number }\<close>), that is IEEE-754 binary64. Every finite
  binary64 value is a rational, so a number is modelled as a rational or one of the three
  special values; each arithmetic operation computes the exact rational result and rounds
  it to the nearest binary64 value, ties to even (53 significant bits, exponent range of
  binary64, subnormals included). The sign of zero is not tracked: no operation of the
  program observes it.
\<close>

datatype number = Finite rat | PosInfinity | NegInfinity | NaN

lemma ceiling_div_less:
  fixes y :: rat and b :: nat
  assumes "1 < y" "2 \<le> b"
  shows "nat \<lceil>y / of_nat b\<rceil> < nat \<lceil>y\<rceil>"
proof -
  have b: "(2::rat) \<le> of_nat b" using assms(2) by simp
  have "y / of_nat b \<le> y / 2"
    using assms(1) b by (intro divide_left_mono) auto
  then have "\<lceil>y / of_nat b\<rceil> \<le> \<lceil>y / 2\<rceil>" by (rule ceiling_mono)
  moreover have "\<lceil>y / 2\<rceil> < \<lceil>y\<rceil>"
  proof -
    have up: "y \<le> of_int \<lceil>y\<rceil>" by (rule le_of_int_ceiling)
    have "2 \<le> \<lceil>y\<rceil>" using assms(1) by linarith
    then have "(2::rat) \<le> of_int \<lceil>y\<rceil>" by simp
    with up have "y / 2 \<le> of_int \<lceil>y\<rceil> - 1" by linarith
    then have "y / 2 \<le> of_int (\<lceil>y\<rceil> - 1)" by simp
    then have "\<lceil>y / 2\<rceil> \<le> \<lceil>y\<rceil> - 1" by (rule ceiling_le)
    then show ?thesis by simp
  qed
  moreover have "0 < \<lceil>y\<rceil>" using assms(1) by linarith
  ultimately show ?thesis by linarith
qed

text \<open>\<open>floor_log b x\<close> is the integer \<open>e\<close> with \<open>b ^ e \<le> x < b ^ (e + 1)\<close>, for \<open>x > 0\<close>.\<close>

function floor_log :: "nat \<Rightarrow> rat \<Rightarrow> int" where
  "floor_log b x =
     (if b < 2 \<or> x \<le> 0 then 0
      else if of_nat b \<le> x then floor_log b (x / of_nat b) + 1
      else if x < 1 then floor_log b (x * of_nat b) - 1
      else 0)"
  by pat_completeness auto
termination
proof (relation "measures [\<lambda>(b, x). if x < 1 then nat \<lceil>1 / x\<rceil> else 0, \<lambda>(b, x). nat \<lceil>x\<rceil>]", goal_cases)
  case 1
  then show ?case by simp
next
  case (2 b x)
  then have b: "2 \<le> b" and x: "of_nat b \<le> x" by auto
  have b': "(2::rat) \<le> of_nat b" using b by simp
  have x1: "1 < x" using b' x by linarith
  have "1 \<le> x / of_nat b" using x b' by simp
  moreover have "nat \<lceil>x / of_nat b\<rceil> < nat \<lceil>x\<rceil>"
    using ceiling_div_less [OF x1 b] .
  ultimately show ?case using x1 by simp
next
  case (3 b x)
  then have b: "2 \<le> b" and x: "0 < x" "x < 1" by auto
  have y: "1 < 1 / x" using x by simp
  have "nat \<lceil>1 / x / of_nat b\<rceil> < nat \<lceil>1 / x\<rceil>"
    using ceiling_div_less [OF y b] .
  moreover have "0 < nat \<lceil>1 / x\<rceil>" using y by linarith
  ultimately show ?case using x by (simp add: divide_simps mult.commute)
qed

declare floor_log.simps [simp del]

definition round_half_even :: "rat \<Rightarrow> int" where
  "round_half_even r =
     (let f = \<lfloor>r\<rfloor>; d = r - of_int f
      in if d < 1 / 2 then f
         else if 1 / 2 < d then f + 1
         else if even f then f else f + 1)"

text \<open>
  Rounding of an exact result to binary64: the unit in the last place is \<open>2 ^ e\<close> with
  \<open>e = \<lfloor>log\<^sub>2 |x|\<rfloor> - 52\<close>, never below \<open>2 ^ - 1074\<close> (the subnormals); a result that
  rounds to \<open>2 ^ 1024\<close> or beyond is an infinity.
\<close>

definition round_binary64 :: "rat \<Rightarrow> number" where
  "round_binary64 x =
     (if x = 0 then Finite 0
      else let e = max (floor_log 2 \<bar>x\<bar> - 52) (- 1074);
               y = of_int (round_half_even (x / 2 powi e)) * 2 powi e
           in if 2 ^ 1024 \<le> \<bar>y\<bar> then (if 0 < y then PosInfinity else NegInfinity)
              else Finite y)"

fun js_neg :: "number \<Rightarrow> number" where
  "js_neg (Finite a) = Finite (- a)"
| "js_neg PosInfinity = NegInfinity"
| "js_neg NegInfinity = PosInfinity"
| "js_neg NaN = NaN"

text \<open>The JavaScript operators \<^verbatim>\<open>+\<close> and \<^verbatim>\<open>*\<close> on two numbers.\<close>

fun js_add :: "number \<Rightarrow> number \<Rightarrow> number" where
  "js_add (Finite a) (Finite b) = round_binary64 (a + b)"
| "js_add NaN y = NaN"
| "js_add x NaN = NaN"
| "js_add PosInfinity NegInfinity = NaN"
| "js_add NegInfinity PosInfinity = NaN"
| "js_add (Finite a) y = y"
| "js_add x y = x"

fun js_mul :: "number \<Rightarrow> number \<Rightarrow> number" where
  "js_mul (Finite a) (Finite b) = round_binary64 (a * b)"
| "js_mul NaN y = NaN"
| "js_mul x NaN = NaN"
| "js_mul (Finite a) y = (if a = 0 then NaN else if 0 < a then y else js_neg y)"
| "js_mul x (Finite b) = (if b = 0 then NaN else if 0 < b then x else js_neg x)"
| "js_mul x y = (if x = y then PosInfinity else NegInfinity)"

subsection \<open>Numbers on the wire\<close>

text \<open>
  A \<^verbatim>\<open>DECIMAL(10, 2)\<close> column reaches the program as a JSON number, which JavaScript
  reads as the nearest binary64 value; an \<^verbatim>\<open>INTEGER\<close> column is read exactly.
\<close>

definition number_of_decimal :: "int \<Rightarrow> number" where
  "number_of_decimal c = round_binary64 (of_int c / 100)"

definition number_of_integer :: "int \<Rightarrow> number" where
  "number_of_integer q = round_binary64 (of_int q)"

text \<open>
  A number leaves the program as the text \<^verbatim>\<open>JSON.stringify\<close> prints: the decimal with
  the fewest significant digits \<open>n\<close> that reads back as the same number (at most 17 are
  ever needed), the nearest such decimal when there are two, the one with the even last
  digit on a tie. \<open>round_trip_candidate x n\<close> is that decimal for \<open>n\<close> digits, if any.
\<close>

definition round_trip_candidate :: "rat \<Rightarrow> nat \<Rightarrow> rat option" where
  "round_trip_candidate x n =
     (let u = 10 powi (floor_log 10 x + 1 - int n);
          s = \<lfloor>x / u\<rfloor>;
          lo = of_int s * u;
          hi = of_int (s + 1) * u;
          ok_lo = (round_binary64 lo = Finite x);
          ok_hi = (round_binary64 hi = Finite x)
      in if ok_lo \<and> ok_hi
         then Some (if x - lo < hi - x then lo
                    else if hi - x < x - lo then hi
                    else if even s then lo else hi)
         else if ok_lo then Some lo
         else if ok_hi then Some hi
         else None)"

fun shortest_round_trip :: "rat \<Rightarrow> nat list \<Rightarrow> rat" where
  "shortest_round_trip x [] = x"
| "shortest_round_trip x (n # ns) =
     (case round_trip_candidate x n of Some v \<Rightarrow> v | None \<Rightarrow> shortest_round_trip x ns)"

definition digit_counts :: "nat list" where
  "digit_counts = [1, 2, 3, 4, 5, 6, 7, 8, 9, 10, 11, 12, 13, 14, 15, 16, 17]"

definition number_to_decimal :: "rat \<Rightarrow> rat" where
  "number_to_decimal x =
     (if x = 0 then 0
      else if 0 < x then shortest_round_trip x digit_counts
      else - shortest_round_trip (- x) digit_counts)"

text \<open>
  Assignment of that JSON value to a \<^verbatim>\<open>DECIMAL(10, 2) NOT NULL\<close> column: the decimal is
  rounded to two places, ties away from zero, and refused when it needs more than eight
  digits before the point. \<^verbatim>\<open>JSON.stringify\<close> prints an infinity or \<^verbatim>\<open>NaN\<close> as
  \<^verbatim>\<open>null\<close>, which the column refuses.
\<close>

datatype pg_error =
  TransportError | UniqueViolation | ForeignKeyViolation | NotNullViolation
  | RlsViolation | NumericOverflow | MultipleRows

definition round_half_away :: "rat \<Rightarrow> int" where
  "round_half_away r = (if 0 \<le> r then \<lfloor>r + 1 / 2\<rfloor> else - \<lfloor>- r + 1 / 2\<rfloor>)"

definition decimal_of_number :: "number \<Rightarrow> pg_error + int" where
  "decimal_of_number x =
     (case x of
        Finite v \<Rightarrow>
          (let c = round_half_away (number_to_decimal v * 100)
           in if \<bar>c\<bar> < 10 ^ 10 then Inr c else Inl NumericOverflow)
      | _ \<Rightarrow> Inl NotNullViolation)"

section \<open>The database schema\<close>

text \<open>
  The tables of the migration, one record per row type and one list per table. A
  \<^verbatim>\<open>UUID\<close> is an opaque identifier; \<^verbatim>\<open>DECIMAL(10, 2)\<close> is fixed point, held as the
  integer number of hundredths; \<^verbatim>\<open>TIMESTAMPTZ\<close> is a point on a discrete clock;
  a nullable column is an \<open>option\<close>.
\<close>

type_synonym uuid = nat
type_synonym decimal_10_2 = int
type_synonym timestamptz = nat

text \<open>
  \<^verbatim>\<open>auth.users\<close> belongs to the authentication provider; only the three columns
  the migration reads are kept. A \<^verbatim>\<open>jsonb\<close> value is kept as far as the operator
  \<^verbatim>\<open>->>\<close> looks at it: an object or not, and each field of an object as the JSON
  null, a string, or any other value carried as its text.
\<close>

datatype json_field = FNull | FString string | FOther string

datatype jsonb = JObject "(string \<times> json_field) list" | JNotObject

record auth_user =
  users_id :: uuid
  users_email :: "string option"
  users_raw_user_meta_data :: "jsonb option"

record profile =
  profiles_id :: uuid
  profiles_username :: string
  profiles_created_at :: timestamptz

record item =
  items_id :: uuid
  items_name :: string
  items_description :: "string option"
  items_price :: decimal_10_2
  items_image_url :: "string option"
  items_status :: string
  items_created_at :: timestamptz

record cart =
  carts_id :: uuid
  carts_user_id :: uuid
  carts_status :: string
  carts_created_at :: timestamptz

record cart_item =
  cart_items_id :: uuid
  cart_items_cart_id :: uuid
  cart_items_item_id :: uuid
  cart_items_quantity :: int
  cart_items_created_at :: timestamptz

record order_row =
  orders_id :: uuid
  orders_user_id :: uuid
  orders_cart_id :: uuid
  orders_total :: decimal_10_2
  orders_status :: string
  orders_created_at :: timestamptz

record db =
  auth_users :: "auth_user list"
  public_profiles :: "profile list"
  public_items :: "item list"
  public_carts :: "cart list"
  public_cart_items :: "cart_item list"
  public_orders :: "order_row list"

section \<open>Requests to the persistence service\<close>

text \<open>
  Every \<^verbatim>\<open>await supabase.from(...)\<close> is one request. What the program does not
  control is an input of the request: whether the transport delivers it (a request that is
  not delivered has no effect on the database), the value \<^verbatim>\<open>uuid_generate_v4()\<close>
  draws for a new row, and the value of \<^verbatim>\<open>NOW()\<close>. The client's answer
  \<^verbatim>\<open>{ data, error }\<close> is a sum: \<open>Inl\<close> the error, \<open>Inr\<close> the data.
\<close>

record request =
  transport_ok :: bool
  uuid_generate_v4 :: uuid
  NOW :: timestamptz

text \<open>\<^verbatim>\<open>.maybeSingle()\<close>: no row is \<^verbatim>\<open>data: null\<close> without an error, one row is that row,
  more rows are an error.\<close>

fun maybeSingle :: "'a list \<Rightarrow> pg_error + 'a option" where
  "maybeSingle [] = Inr None"
| "maybeSingle [x] = Inr (Some x)"
| "maybeSingle (x # y # zs) = Inl MultipleRows"

text \<open>\<^verbatim>\<open>.order("created_at", { ascending: false })\<close>, rows of equal time in table order.\<close>

definition order_desc :: "('a \<Rightarrow> timestamptz) \<Rightarrow> 'a list \<Rightarrow> 'a list" where
  "order_desc f rows = rev (sort_key f (rev rows))"

subsection \<open>Row-level security policies\<close>

text \<open>\<open>uid\<close> is \<^verbatim>\<open>auth.uid()\<close>: the identity of the session that sends the request,
  \<open>None\<close> without one.\<close>

definition policy_items_select :: "item \<Rightarrow> bool" where
  "policy_items_select i = (items_status i = ''active'')"

definition policy_carts :: "uuid option \<Rightarrow> cart \<Rightarrow> bool" where
  "policy_carts uid c = (uid = Some (carts_user_id c))"

definition policy_cart_items :: "db \<Rightarrow> uuid option \<Rightarrow> cart_item \<Rightarrow> bool" where
  "policy_cart_items d uid ci =
     (\<exists>c \<in> set (public_carts d). carts_id c = cart_items_cart_id ci \<and> Some (carts_user_id c) = uid)"

definition policy_orders :: "uuid option \<Rightarrow> order_row \<Rightarrow> bool" where
  "policy_orders uid ord = (uid = Some (orders_user_id ord))"

subsection \<open>The carts table\<close>

text \<open>\<^verbatim>\<open>from("carts").select("id").eq("user_id", u).eq("status", st).maybeSingle()\<close>\<close>

definition select_cart :: "db \<Rightarrow> uuid option \<Rightarrow> request \<Rightarrow> uuid \<Rightarrow> string \<Rightarrow> pg_error + cart option" where
  "select_cart d uid rq u st =
     (if \<not> transport_ok rq then Inl TransportError
      else maybeSingle
        [c \<leftarrow> public_carts d. policy_carts uid c \<and> carts_user_id c = u \<and> carts_status c = st])"

text \<open>
  \<^verbatim>\<open>from("carts").insert([{ user_id: u, status: st }]).select().single()\<close>. The row is
  checked against the insert policy, the foreign key to \<^verbatim>\<open>auth.users\<close>, the primary key
  and \<^verbatim>\<open>UNIQUE(user_id, status)\<close>; a refused insert leaves the table as it was.
\<close>

definition insert_cart :: "db \<Rightarrow> uuid option \<Rightarrow> request \<Rightarrow> uuid \<Rightarrow> string \<Rightarrow> (pg_error + cart) \<times> db" where
  "insert_cart d uid rq u st =
     (let row = \<lparr>carts_id = uuid_generate_v4 rq, carts_user_id = u, carts_status = st,
                 carts_created_at = NOW rq\<rparr>
      in if \<not> transport_ok rq then (Inl TransportError, d)
         else if \<not> policy_carts uid row then (Inl RlsViolation, d)
         else if u \<notin> users_id ` set (auth_users d) then (Inl ForeignKeyViolation, d)
         else if carts_id row \<in> carts_id ` set (public_carts d) then (Inl UniqueViolation, d)
         else if \<exists>c \<in> set (public_carts d). carts_user_id c = u \<and> carts_status c = st
           then (Inl UniqueViolation, d)
         else (Inr row, d\<lparr>public_carts := public_carts d @ [row]\<rparr>))"

text \<open>
  \<^verbatim>\<open>from("carts").update({ status: st }).eq("id", cid)\<close>. The update policy hides the
  carts of other users; an update that would give two carts of one user the same status
  violates \<^verbatim>\<open>UNIQUE(user_id, status)\<close> and changes nothing.
\<close>

definition update_cart_status :: "db \<Rightarrow> uuid option \<Rightarrow> request \<Rightarrow> uuid \<Rightarrow> string \<Rightarrow> (pg_error + unit) \<times> db" where
  "update_cart_status d uid rq cid st =
     (let hit = (\<lambda>c. policy_carts uid c \<and> carts_id c = cid);
          new = map (\<lambda>c. if hit c then c\<lparr>carts_status := st\<rparr> else c) (public_carts d)
      in if \<not> transport_ok rq then (Inl TransportError, d)
         else if \<not> distinct (map (\<lambda>c. (carts_user_id c, carts_status c)) new)
           then (Inl UniqueViolation, d)
         else (Inr (), d\<lparr>public_carts := new\<rparr>))"


subsection \<open>The cart\_items table\<close>

text \<open>\<^verbatim>\<open>from("cart_items").select("id").eq("cart_id", cid).eq("item_id", iid).maybeSingle()\<close>\<close>

definition select_cart_item :: "db \<Rightarrow> uuid option \<Rightarrow> request \<Rightarrow> uuid \<Rightarrow> uuid \<Rightarrow> pg_error + cart_item option" where
  "select_cart_item d uid rq cid iid =
     (if \<not> transport_ok rq then Inl TransportError
      else maybeSingle
        [ci \<leftarrow> public_cart_items d.
           policy_cart_items d uid ci \<and> cart_items_cart_id ci = cid \<and> cart_items_item_id ci = iid])"

text \<open>
  \<^verbatim>\<open>from("cart_items").insert([{ cart_id: cid, item_id: iid, quantity: q }])\<close>, checked
  against the insert policy, both foreign keys (a foreign key sees every item, whatever
  its status), the primary key and \<^verbatim>\<open>UNIQUE(cart_id, item_id)\<close>.
\<close>

definition insert_cart_item :: "db \<Rightarrow> uuid option \<Rightarrow> request \<Rightarrow> uuid \<Rightarrow> uuid \<Rightarrow> int \<Rightarrow> (pg_error + unit) \<times> db" where
  "insert_cart_item d uid rq cid iid q =
     (let row = \<lparr>cart_items_id = uuid_generate_v4 rq, cart_items_cart_id = cid,
                 cart_items_item_id = iid, cart_items_quantity = q,
                 cart_items_created_at = NOW rq\<rparr>
      in if \<not> transport_ok rq then (Inl TransportError, d)
         else if \<not> policy_cart_items d uid row then (Inl RlsViolation, d)
         else if cid \<notin> carts_id ` set (public_carts d) then (Inl ForeignKeyViolation, d)
         else if iid \<notin> items_id ` set (public_items d) then (Inl ForeignKeyViolation, d)
         else if cart_items_id row \<in> cart_items_id ` set (public_cart_items d)
           then (Inl UniqueViolation, d)
         else if \<exists>ci \<in> set (public_cart_items d).
                   cart_items_cart_id ci = cid \<and> cart_items_item_id ci = iid
           then (Inl UniqueViolation, d)
         else (Inr (), d\<lparr>public_cart_items := public_cart_items d @ [row]\<rparr>))"

text \<open>
  The embedded resource \<^verbatim>\<open>items (...)\<close> of a cart item is the item its \<^verbatim>\<open>item_id\<close>
  names, or \<^verbatim>\<open>null\<close> when the select policy of \<^verbatim>\<open>items\<close> hides that item.
\<close>

definition embedded_item :: "db \<Rightarrow> cart_item \<Rightarrow> item option" where
  "embedded_item d ci =
     find (\<lambda>i. items_id i = cart_items_item_id ci \<and> policy_items_select i) (public_items d)"

text \<open>The rows \<^verbatim>\<open>viewCart\<close> reads (\<^verbatim>\<open>interface CartItem\<close>): \<^verbatim>\<open>id, item_id, items (name)\<close>.\<close>

record CartItem =
  CartItem_id :: uuid
  CartItem_item_id :: uuid
  CartItem_items :: "string option"

definition select_cart_items_name :: "db \<Rightarrow> uuid option \<Rightarrow> request \<Rightarrow> uuid \<Rightarrow> pg_error + CartItem list" where
  "select_cart_items_name d uid rq cid =
     (if \<not> transport_ok rq then Inl TransportError
      else Inr (map (\<lambda>ci. \<lparr>CartItem_id = cart_items_id ci, CartItem_item_id = cart_items_item_id ci,
                             CartItem_items = map_option items_name (embedded_item d ci)\<rparr>)
             [ci \<leftarrow> public_cart_items d. policy_cart_items d uid ci \<and> cart_items_cart_id ci = cid]))"

text \<open>The rows \<^verbatim>\<open>checkout\<close> reads: \<^verbatim>\<open>item_id, quantity, items (price)\<close>.\<close>

record priced_row =
  row_item_id :: uuid
  row_quantity :: number
  row_items :: "number option"

definition select_cart_items_price :: "db \<Rightarrow> uuid option \<Rightarrow> request \<Rightarrow> uuid \<Rightarrow> pg_error + priced_row list" where
  "select_cart_items_price d uid rq cid =
     (if \<not> transport_ok rq then Inl TransportError
      else Inr (map (\<lambda>ci. \<lparr>row_item_id = cart_items_item_id ci,
                             row_quantity = number_of_integer (cart_items_quantity ci),
                             row_items = map_option (\<lambda>i. number_of_decimal (items_price i))
                                           (embedded_item d ci)\<rparr>)
             [ci \<leftarrow> public_cart_items d. policy_cart_items d uid ci \<and> cart_items_cart_id ci = cid]))"

subsection \<open>The orders table\<close>

text \<open>
  \<^verbatim>\<open>from("orders").insert([{ user_id: u, cart_id: cid, total: amount, status: st }])\<close>,
  checked against the column type of \<^verbatim>\<open>total\<close>, the insert policy, both foreign keys
  and the primary key.
\<close>

definition insert_order :: "db \<Rightarrow> uuid option \<Rightarrow> request \<Rightarrow> uuid \<Rightarrow> uuid \<Rightarrow> number \<Rightarrow> string \<Rightarrow> (pg_error + unit) \<times> db" where
  "insert_order d uid rq u cid amount st =
     (if \<not> transport_ok rq then (Inl TransportError, d)
      else case decimal_of_number amount of
        Inl e \<Rightarrow> (Inl e, d)
      | Inr t \<Rightarrow>
          (let row = \<lparr>orders_id = uuid_generate_v4 rq, orders_user_id = u, orders_cart_id = cid,
                      orders_total = t, orders_status = st, orders_created_at = NOW rq\<rparr>
           in if \<not> policy_orders uid row then (Inl RlsViolation, d)
              else if u \<notin> users_id ` set (auth_users d) then (Inl ForeignKeyViolation, d)
              else if cid \<notin> carts_id ` set (public_carts d) then (Inl ForeignKeyViolation, d)
              else if orders_id row \<in> orders_id ` set (public_orders d)
                then (Inl UniqueViolation, d)
              else (Inr (), d\<lparr>public_orders := public_orders d @ [row]\<rparr>)))"

text \<open>The rows \<^verbatim>\<open>viewOrderHistory\<close> reads (\<^verbatim>\<open>interface Order\<close>):
  \<^verbatim>\<open>from("orders").select("id, created_at, total").eq("user_id", u).order("created_at", ...)\<close>.\<close>

record Order =
  Order_id :: uuid
  Order_created_at :: timestamptz
  Order_total :: number

definition select_orders :: "db \<Rightarrow> uuid option \<Rightarrow> request \<Rightarrow> uuid \<Rightarrow> pg_error + Order list" where
  "select_orders d uid rq u =
     (if \<not> transport_ok rq then Inl TransportError
      else Inr (map (\<lambda>ord. \<lparr>Order_id = orders_id ord, Order_created_at = orders_created_at ord,
                              Order_total = number_of_decimal (orders_total ord)\<rparr>)
             (order_desc orders_created_at
                [ord \<leftarrow> public_orders d. policy_orders uid ord \<and> orders_user_id ord = u])))"

subsection \<open>The items table\<close>

text \<open>The rows \<^verbatim>\<open>loadItems\<close> reads (\<^verbatim>\<open>interface Item\<close>):
  \<^verbatim>\<open>from("items").select("*").eq("status", "active").order("created_at", ...)\<close>.\<close>

record Item =
  Item_id :: uuid
  Item_name :: string
  Item_description :: "string option"
  Item_price :: number
  Item_image_url :: "string option"
  Item_status :: string

definition select_items :: "db \<Rightarrow> request \<Rightarrow> string \<Rightarrow> pg_error + Item list" where
  "select_items d rq st =
     (if \<not> transport_ok rq then Inl TransportError
      else Inr (map (\<lambda>i. \<lparr>Item_id = items_id i, Item_name = items_name i,
                            Item_description = items_description i,
                            Item_price = number_of_decimal (items_price i),
                            Item_image_url = items_image_url i, Item_status = items_status i\<rparr>)
             (order_desc items_created_at
                [i \<leftarrow> public_items d. policy_items_select i \<and> items_status i = st])))"

subsection \<open>The signup trigger\<close>

text \<open>The operator \<^verbatim>\<open>->>\<close> and \<^verbatim>\<open>split_part(s, '@', 1)\<close>; both are \<^verbatim>\<open>NULL\<close> on \<^verbatim>\<open>NULL\<close>.\<close>

fun json_field_text :: "json_field \<Rightarrow> string option" where
  "json_field_text FNull = None"
| "json_field_text (FString s) = Some s"
| "json_field_text (FOther t) = Some t"

fun jsonb_get_text :: "jsonb option \<Rightarrow> string \<Rightarrow> string option" where
  "jsonb_get_text None k = None"
| "jsonb_get_text (Some JNotObject) k = None"
| "jsonb_get_text (Some (JObject kvs)) k =
     (case map_of kvs k of None \<Rightarrow> None | Some v \<Rightarrow> json_field_text v)"

definition split_part_1 :: "string option \<Rightarrow> char \<Rightarrow> string option" where
  "split_part_1 s c = map_option (takeWhile (\<lambda>x. x \<noteq> c)) s"

fun COALESCE :: "'a option \<Rightarrow> 'a option \<Rightarrow> 'a option" where
  "COALESCE (Some x) y = Some x"
| "COALESCE None y = y"

text \<open>
  \<^verbatim>\<open>handle_new_user()\<close>, run after the insert of \<open>new\<close> into \<^verbatim>\<open>auth.users\<close>: the insert
  into \<^verbatim>\<open>profiles\<close> is checked against \<^verbatim>\<open>username NOT NULL\<close>, the primary key, the
  foreign key to \<^verbatim>\<open>auth.users\<close> and \<^verbatim>\<open>username UNIQUE\<close>. An error raised by the
  trigger aborts the statement that fired it.
\<close>

definition new_username :: "auth_user \<Rightarrow> string option" where
  "new_username new =
     COALESCE (jsonb_get_text (users_raw_user_meta_data new) ''username'')
              (split_part_1 (users_email new) CHR ''@'')"

definition handle_new_user :: "db \<Rightarrow> timestamptz \<Rightarrow> auth_user \<Rightarrow> pg_error + db" where
  "handle_new_user d t new =
     (case new_username new of
        None \<Rightarrow> Inl NotNullViolation
      | Some n \<Rightarrow>
          if users_id new \<in> profiles_id ` set (public_profiles d) then Inl UniqueViolation
          else if users_id new \<notin> users_id ` set (auth_users d) then Inl ForeignKeyViolation
          else if n \<in> profiles_username ` set (public_profiles d) then Inl UniqueViolation
          else Inr (d\<lparr>public_profiles := public_profiles d @
                 [\<lparr>profiles_id = users_id new, profiles_username = n, profiles_created_at = t\<rparr>]\<rparr>))"

text \<open>The trigger \<^verbatim>\<open>on_auth_user_created\<close>: the insert into \<^verbatim>\<open>auth.users\<close> and the
  function, as one statement.\<close>

definition on_auth_user_created :: "db \<Rightarrow> timestamptz \<Rightarrow> auth_user \<Rightarrow> pg_error + db" where
  "on_auth_user_created d t new =
     (if users_id new \<in> users_id ` set (auth_users d) then Inl UniqueViolation
      else handle_new_user (d\<lparr>auth_users := auth_users d @ [new]\<rparr>) t new)"

section \<open>The shop page\<close>

text \<open>
  The state of the component \<^verbatim>\<open>Shop\<close>: the signed-in user of \<^verbatim>\<open>useAuth()\<close> (whose
  identity is the \<^verbatim>\<open>auth.uid()\<close> of every request the page sends) and the four
  \<^verbatim>\<open>useState\<close> cells. A handler takes the database and the state, and returns both
  with what the user is shown: a toast, nothing, or the \<^verbatim>\<open>TypeError\<close> of reading a
  property of \<^verbatim>\<open>null\<close>, which ends the handler where it is raised. The text of the
  order history toast is carried as the rows it prints.
\<close>

datatype toast =
  Toast_error string | Toast_info string | Toast_success string
  | Toast_info_orders "Order list"

datatype outcome = Shown toast | Silent | Uncaught_TypeError

record shop =
  user :: "uuid option"
  items :: "Item list"
  cartId :: "uuid option"
  addingToCart :: "uuid option"
  checkingOut :: bool

definition loadItems :: "db \<Rightarrow> shop \<Rightarrow> request \<Rightarrow> db \<times> shop \<times> outcome" where
  "loadItems d s rq =
     (case select_items d rq ''active'' of
        Inl e \<Rightarrow> (d, s, Shown (Toast_error ''Failed to load items''))
      | Inr rows \<Rightarrow> (d, s\<lparr>items := rows\<rparr>, Silent))"

definition loadOrCreateCart :: "db \<Rightarrow> shop \<Rightarrow> request \<Rightarrow> request \<Rightarrow> db \<times> shop \<times> outcome" where
  "loadOrCreateCart d s rq1 rq2 =
     (case user s of
        None \<Rightarrow> (d, s, Silent)
      | Some u \<Rightarrow>
          (case select_cart d (user s) rq1 u ''active'' of
             Inr (Some existingCart) \<Rightarrow> (d, s\<lparr>cartId := Some (carts_id existingCart)\<rparr>, Silent)
           | _ \<Rightarrow>
               (case insert_cart d (user s) rq2 u ''active'' of
                  (Inl e, d') \<Rightarrow> (d', s, Shown (Toast_error ''Failed to create cart''))
                | (Inr newCart, d') \<Rightarrow> (d', s\<lparr>cartId := Some (carts_id newCart)\<rparr>, Silent))))"

definition addToCart :: "db \<Rightarrow> shop \<Rightarrow> request \<Rightarrow> request \<Rightarrow> uuid \<Rightarrow> db \<times> shop \<times> outcome" where
  "addToCart d s rq1 rq2 itemId =
     (case (cartId s, user s) of
        (Some cid, Some u) \<Rightarrow>
          (case select_cart_item d (user s) rq1 cid itemId of
             Inr (Some existing) \<Rightarrow>
               (d, s\<lparr>addingToCart := None\<rparr>, Shown (Toast_info ''Item already in cart''))
           | _ \<Rightarrow>
               (case insert_cart_item d (user s) rq2 cid itemId 1 of
                  (Inl e, d') \<Rightarrow>
                    (d', s\<lparr>addingToCart := None\<rparr>, Shown (Toast_error ''Failed to add item to cart''))
                | (Inr _, d') \<Rightarrow>
                    (d', s\<lparr>addingToCart := None\<rparr>, Shown (Toast_success ''Added to cart!''))))
      | _ \<Rightarrow> (d, s, Silent))"

fun join :: "string \<Rightarrow> string list \<Rightarrow> string" where
  "join sep [] = []"
| "join sep [x] = x"
| "join sep (x # y # zs) = x @ sep @ join sep (y # zs)"

definition viewCart :: "db \<Rightarrow> shop \<Rightarrow> request \<Rightarrow> db \<times> shop \<times> outcome" where
  "viewCart d s rq =
     (case cartId s of
        None \<Rightarrow> (d, s, Silent)
      | Some cid \<Rightarrow>
          (case select_cart_items_name d (user s) rq cid of
             Inl e \<Rightarrow> (d, s, Shown (Toast_error ''Failed to load cart''))
           | Inr [] \<Rightarrow> (d, s, Shown (Toast_info ''Your cart is empty''))
           | Inr cartItems \<Rightarrow>
               (case those (map CartItem_items cartItems) of
                  None \<Rightarrow> (d, s, Uncaught_TypeError)
                | Some names \<Rightarrow> (d, s, Shown (Toast_info (''Cart Items: '' @ join '', '' names))))))"

definition viewOrderHistory :: "db \<Rightarrow> shop \<Rightarrow> request \<Rightarrow> db \<times> shop \<times> outcome" where
  "viewOrderHistory d s rq =
     (case user s of
        None \<Rightarrow> (d, s, Silent)
      | Some u \<Rightarrow>
          (case select_orders d (user s) rq u of
             Inl e \<Rightarrow> (d, s, Shown (Toast_error ''Failed to load order history''))
           | Inr [] \<Rightarrow> (d, s, Shown (Toast_info ''No orders yet''))
           | Inr orders \<Rightarrow> (d, s, Shown (Toast_info_orders orders))))"

text \<open>
  \<^verbatim>\<open>cartItems.reduce((sum, item) => sum + (item.items.price * item.quantity), 0)\<close>:
  \<open>None\<close> is the \<^verbatim>\<open>TypeError\<close> of \<^verbatim>\<open>item.items.price\<close> on a row whose \<^verbatim>\<open>items\<close> is
  \<^verbatim>\<open>null\<close>.
\<close>

fun reduce_total :: "number \<Rightarrow> priced_row list \<Rightarrow> number option" where
  "reduce_total acc [] = Some acc"
| "reduce_total acc (row # rows) =
     (case row_items row of
        None \<Rightarrow> None
      | Some price \<Rightarrow> reduce_total (js_add acc (js_mul price (row_quantity row))) rows)"

definition checkout :: "db \<Rightarrow> shop \<Rightarrow> request \<Rightarrow> request \<Rightarrow> request \<Rightarrow> request \<Rightarrow> db \<times> shop \<times> outcome" where
  "checkout d s rq1 rq2 rq3 rq4 =
     (case (cartId s, user s) of
        (Some cid, Some u) \<Rightarrow>
          (case select_cart_items_price d (user s) rq1 cid of
             Inl cartError \<Rightarrow> (d, s\<lparr>checkingOut := False\<rparr>, Shown (Toast_error ''Cart is empty''))
           | Inr [] \<Rightarrow> (d, s\<lparr>checkingOut := False\<rparr>, Shown (Toast_error ''Cart is empty''))
           | Inr cartItems \<Rightarrow>
               (case reduce_total (Finite 0) cartItems of
                  None \<Rightarrow> (d, s\<lparr>checkingOut := True\<rparr>, Uncaught_TypeError)
                | Some amount \<Rightarrow>
                    (case insert_order d (user s) rq2 u cid amount ''completed'' of
                       (Inl orderError, d2) \<Rightarrow>
                         (d2, s\<lparr>checkingOut := False\<rparr>, Shown (Toast_error ''Failed to create order''))
                     | (Inr _, d2) \<Rightarrow>
                         (let d3 = snd (update_cart_status d2 (user s) rq3 cid ''checked_out'');
                              (newCart, d4) = insert_cart d3 (user s) rq4 u ''active'';
                              s' = (case newCart of
                                      Inr c \<Rightarrow> s\<lparr>cartId := Some (carts_id c)\<rparr>
                                    | Inl e \<Rightarrow> s)
                          in (d4, s'\<lparr>checkingOut := False\<rparr>, Shown (Toast_success ''Order successful!''))))))
      | _ \<Rightarrow> (d, s, Silent))"

section \<open>Reachable states of the database\<close>

text \<open>
  The carts of one user with one status, the invariant "every user has at most one
  active cart", and the constraint \<^verbatim>\<open>UNIQUE(user_id, status)\<close> as a predicate. A
  reachable database is what the migration leaves (no cart, cart item or order), followed
  by any number of signups and of runs of the three handlers that write, each with any
  page state and any requests.
\<close>

definition carts_of :: "db \<Rightarrow> uuid \<Rightarrow> string \<Rightarrow> cart list" where
  "carts_of d u st = [c \<leftarrow> public_carts d. carts_user_id c = u \<and> carts_status c = st]"

definition active_unique :: "db \<Rightarrow> bool" where
  "active_unique d = (\<forall>u. length (carts_of d u ''active'') \<le> 1)"

definition carts_unique :: "db \<Rightarrow> bool" where
  "carts_unique d = distinct (map (\<lambda>c. (carts_user_id c, carts_status c)) (public_carts d))"

inductive reachable :: "db \<Rightarrow> bool" where
  migrated: "public_carts d = [] \<Longrightarrow> public_cart_items d = [] \<Longrightarrow> public_orders d = []
    \<Longrightarrow> reachable d"
| signup: "reachable d \<Longrightarrow> on_auth_user_created d t new = Inr d' \<Longrightarrow> reachable d'"
| cart_resolution: "reachable d \<Longrightarrow> reachable (fst (loadOrCreateCart d s rq1 rq2))"
| add_to_cart: "reachable d \<Longrightarrow> reachable (fst (addToCart d s rq1 rq2 itemId))"
| checked_out: "reachable d \<Longrightarrow> reachable (fst (checkout d s rq1 rq2 rq3 rq4))"

section \<open>The checkout total of the specification\<close>

text \<open>
  A fetched cart row as the database holds it: the item id, the price in hundredths and
  the quantity; \<open>fetched_rows\<close> is what the program receives for such rows.
  \<open>exact_total\<close> follows the words of the specification, "the exact decimal sum of
  (item price x quantity) over those rows", and is what the total of \<open>reduce_total\<close> is
  compared with. \<open>whole_prices\<close> are rows whose price has no fractional part, within
  the ranges of the two columns, and \<open>magnitude\<close> is the sum of the absolute values of
  their products.
\<close>

definition fetched_rows :: "(uuid \<times> int \<times> int) list \<Rightarrow> priced_row list" where
  "fetched_rows xs =
     map (\<lambda>(i, p, q). \<lparr>row_item_id = i, row_quantity = number_of_integer q,
                          row_items = Some (number_of_decimal p)\<rparr>) xs"

definition exact_total :: "(uuid \<times> int \<times> int) list \<Rightarrow> rat" where
  "exact_total xs = (\<Sum>(i, p, q) \<leftarrow> xs. of_int p / 100 * of_int q)"

definition whole_prices :: "(uuid \<times> int \<times> int) list \<Rightarrow> bool" where
  "whole_prices xs = list_all (\<lambda>(i, p, q). 100 dvd p \<and> \<bar>p\<bar> < 10 ^ 10 \<and> \<bar>q\<bar> < 2 ^ 31) xs"

definition magnitude :: "(uuid \<times> int \<times> int) list \<Rightarrow> int" where
  "magnitude xs = (\<Sum>(i, p, q) \<leftarrow> xs. \<bar>p div 100 * q\<bar>)"

text \<open>The cart items of one cart for one item: \<^verbatim>\<open>UNIQUE(cart_id, item_id)\<close> allows at
  most one.\<close>

definition pair_rows :: "db \<Rightarrow> uuid \<Rightarrow> uuid \<Rightarrow> cart_item list" where
  "pair_rows d cid iid =
     [ci \<leftarrow> public_cart_items d. cart_items_cart_id ci = cid \<and> cart_items_item_id ci = iid]"

section \<open>Example data\<close>

text \<open>
  A request that is delivered and one that is lost, one user, two of the items the
  migration seeds, and the states of the database along one session of that user: after
  the signup, with an empty active cart, with one item and with two items in it, after
  the checkout of the cart with one item, with an item in the next cart, and after the
  checkout of that cart.
\<close>

definition sent :: "uuid \<Rightarrow> request" where
  "sent new_id = \<lparr>transport_ok = True, uuid_generate_v4 = new_id, NOW = 5\<rparr>"

definition lost :: request where
  "lost = \<lparr>transport_ok = False, uuid_generate_v4 = 0, NOW = 5\<rparr>"

definition alice :: auth_user where
  "alice = \<lparr>users_id = 7, users_email = Some ''alice@example.com'', users_raw_user_meta_data = None\<rparr>"

text \<open>An identity with neither a username in its metadata nor an email, and one with
  both.\<close>

definition nobody :: auth_user where
  "nobody = \<lparr>users_id = 8, users_email = None, users_raw_user_meta_data = None\<rparr>"

definition bob :: auth_user where
  "bob = \<lparr>users_id = 9, users_email = Some ''bob@example.com'',
     users_raw_user_meta_data = Some (JObject [(''username'', FString ''bobby'')])\<rparr>"

definition sneakers :: item where
  "sneakers = \<lparr>items_id = 100, items_name = ''Classic Sneakers'',
     items_description = Some ''Comfortable everyday sneakers'', items_price = 7999,
     items_image_url = None, items_status = ''active'', items_created_at = 0\<rparr>"

definition yoga_mat :: item where
  "yoga_mat = \<lparr>items_id = 101, items_name = ''Yoga Mat'',
     items_description = Some ''Non-slip premium quality'', items_price = 3499,
     items_image_url = None, items_status = ''active'', items_created_at = 0\<rparr>"

definition line :: "uuid \<Rightarrow> uuid \<Rightarrow> uuid \<Rightarrow> cart_item" where
  "line i cid iid = \<lparr>cart_items_id = i, cart_items_cart_id = cid, cart_items_item_id = iid,
     cart_items_quantity = 1, cart_items_created_at = 5\<rparr>"

definition cart_of_alice :: "uuid \<Rightarrow> string \<Rightarrow> cart" where
  "cart_of_alice cid st = \<lparr>carts_id = cid, carts_user_id = 7, carts_status = st,
     carts_created_at = 5\<rparr>"

definition order_of_alice :: "uuid \<Rightarrow> uuid \<Rightarrow> int \<Rightarrow> order_row" where
  "order_of_alice i cid t = \<lparr>orders_id = i, orders_user_id = 7, orders_cart_id = cid,
     orders_total = t, orders_status = ''completed'', orders_created_at = 5\<rparr>"

definition db_signed_up :: db where
  "db_signed_up = \<lparr>auth_users = [alice],
     public_profiles = [\<lparr>profiles_id = 7, profiles_username = ''alice'', profiles_created_at = 2\<rparr>],
     public_items = [sneakers, yoga_mat], public_carts = [], public_cart_items = [],
     public_orders = []\<rparr>"

definition db_empty_cart :: db where
  "db_empty_cart = db_signed_up\<lparr>public_carts := [cart_of_alice 10 ''active'']\<rparr>"

definition db_one_item :: db where
  "db_one_item = db_empty_cart\<lparr>public_cart_items := [line 20 10 100]\<rparr>"

definition db_two_items :: db where
  "db_two_items = db_empty_cart\<lparr>public_cart_items := [line 20 10 100, line 21 10 101]\<rparr>"

definition db_first_checkout :: db where
  "db_first_checkout = db_one_item
     \<lparr>public_carts := [cart_of_alice 10 ''checked_out'', cart_of_alice 11 ''active''],
      public_orders := [order_of_alice 40 10 7999]\<rparr>"

definition db_second_cart :: db where
  "db_second_cart = db_first_checkout\<lparr>public_cart_items := [line 20 10 100, line 22 11 101]\<rparr>"

definition db_second_checkout :: db where
  "db_second_checkout = db_second_cart
     \<lparr>public_orders := [order_of_alice 40 10 7999, order_of_alice 41 11 3499]\<rparr>"

definition shop_new :: shop where
  "shop_new = \<lparr>user = Some 7, items = [], cartId = None, addingToCart = None,
     checkingOut = False\<rparr>"

definition shop_alice :: shop where
  "shop_alice = shop_new\<lparr>cartId := Some 10\<rparr>"

definition shop_second :: shop where
  "shop_second = shop_new\<lparr>cartId := Some 11\<rparr>"

definition rows_two_items :: "priced_row list" where
  "rows_two_items =
     [\<lparr>row_item_id = 100, row_quantity = Finite 1,
       row_items = Some (Finite (5628795846771343 / 70368744177664))\<rparr>,
      \<lparr>row_item_id = 101, row_quantity = Finite 1,
       row_items = Some (Finite (4924404717552927 / 140737488355328))\<rparr>]"

definition rows_sneakers :: "priced_row list" where
  "rows_sneakers =
     [\<lparr>row_item_id = 100, row_quantity = Finite 1,
       row_items = Some (Finite (5628795846771343 / 70368744177664))\<rparr>]"

definition rows_yoga_mat :: "priced_row list" where
  "rows_yoga_mat =
     [\<lparr>row_item_id = 101, row_quantity = Finite 1,
       row_items = Some (Finite (4924404717552927 / 140737488355328))\<rparr>]"

section \<open>Evaluation\<close>

text \<open>The recursion of \<open>floor_log\<close> as conditional rewrite rules, for evaluation by the
  simplifier.\<close>

lemma floor_log_ge [simp]:
  "2 \<le> b \<Longrightarrow> of_nat b \<le> x \<Longrightarrow> floor_log b x = floor_log b (x / of_nat b) + 1"
  by (subst floor_log.simps) auto

lemma floor_log_lt [simp]:
  "2 \<le> b \<Longrightarrow> 0 < x \<Longrightarrow> x < 1 \<Longrightarrow> floor_log b x = floor_log b (x * of_nat b) - 1"
  by (subst floor_log.simps) auto

lemma floor_log_unit [simp]:
  "2 \<le> b \<Longrightarrow> 1 \<le> x \<Longrightarrow> x < of_nat b \<Longrightarrow> floor_log b x = 0"
  by (subst floor_log.simps) auto

text \<open>The floor of a quotient of numerals, which the simplifier does not evaluate on the
  rationals by itself.\<close>

lemma floor_rat_numeral [simp]: "\<lfloor>numeral a / numeral b :: rat\<rfloor> = numeral a div numeral b"
  using floor_divide_of_int_eq [of "numeral a" "numeral b", where ?'a = rat] by simp

lemma floor_rat_neg_numeral [simp]:
  "\<lfloor>- (numeral a / numeral b) :: rat\<rfloor> = - numeral a div numeral b"
  using floor_divide_of_int_eq [of "- numeral a" "numeral b", where ?'a = rat] by simp

lemmas binary64_eval = round_binary64_def round_half_even_def Let_def

lemmas example_defs = sent_def lost_def alice_def nobody_def bob_def sneakers_def yoga_mat_def line_def
  cart_of_alice_def order_of_alice_def db_signed_up_def db_empty_cart_def db_one_item_def
  db_two_items_def db_first_checkout_def db_second_cart_def db_second_checkout_def
  shop_new_def shop_alice_def shop_second_def

lemma price_7999: "number_of_decimal 7999 = Finite (5628795846771343 / 70368744177664)"
  by (simp add: number_of_decimal_def binary64_eval)

lemma price_3499: "number_of_decimal 3499 = Finite (4924404717552927 / 140737488355328)"
  by (simp add: number_of_decimal_def binary64_eval)

lemma quantity_1: "number_of_integer 1 = Finite 1"
  by (simp add: number_of_integer_def binary64_eval)

lemma select_two_items:
  "select_cart_items_price db_two_items (Some 7) (sent k) 10 = Inr rows_two_items"
  by (simp add: select_cart_items_price_def policy_cart_items_def embedded_item_def
      policy_items_select_def example_defs rows_two_items_def price_7999 price_3499 quantity_1)

lemma total_two_items:
  "reduce_total (Finite 0) rows_two_items = Some (Finite (4045499102773903 / 35184372088832))"
  by (simp add: rows_two_items_def binary64_eval)

lemmas decimal_eval = decimal_of_number_def number_to_decimal_def digit_counts_def
  round_trip_candidate_def round_half_away_def

lemma stored_7999: "decimal_of_number (Finite (5628795846771343 / 70368744177664)) = Inr 7999"
  by (simp add: decimal_eval binary64_eval)

lemma stored_3499: "decimal_of_number (Finite (4924404717552927 / 140737488355328)) = Inr 3499"
  by (simp add: decimal_eval binary64_eval)

lemmas table_eval = policy_carts_def policy_cart_items_def policy_orders_def
  policy_items_select_def embedded_item_def select_cart_def insert_cart_def
  update_cart_status_def select_cart_item_def insert_cart_item_def
  select_cart_items_price_def insert_order_def Let_def

section \<open>Failed writes change nothing\<close>

lemma insert_order_error_unchanged:
  "insert_order d uid rq u cid amount st = (Inl e, d') \<Longrightarrow> d' = d"
  by (auto simp: insert_order_def Let_def split: if_splits sum.splits)

lemma insert_cart_error_unchanged:
  "insert_cart d uid rq u st = (Inl e, d') \<Longrightarrow> d' = d"
  by (auto simp: insert_cart_def Let_def split: if_splits)

lemma insert_cart_item_error_unchanged:
  "insert_cart_item d uid rq cid iid q = (Inl e, d') \<Longrightarrow> d' = d"
  by (auto simp: insert_cart_item_def Let_def split: if_splits)

lemma update_cart_status_error_unchanged:
  "update_cart_status d uid rq cid st = (Inl e, d') \<Longrightarrow> d' = d"
  by (auto simp: update_cart_status_def Let_def split: if_splits)

section \<open>The carts table under the handlers\<close>

subsection \<open>What each write does to the carts table\<close>

lemma insert_order_carts [simp]:
  "public_carts (snd (insert_order d uid rq u cid amount st)) = public_carts d"
  by (simp add: insert_order_def Let_def split: sum.splits)

lemma insert_cart_item_carts [simp]:
  "public_carts (snd (insert_cart_item d uid rq cid iid q)) = public_carts d"
  by (simp add: insert_cart_item_def Let_def)

lemma on_auth_user_created_carts:
  "on_auth_user_created d t new = Inr d' \<Longrightarrow> public_carts d' = public_carts d"
  by (auto simp: on_auth_user_created_def handle_new_user_def split: if_splits option.splits)

lemma insert_cart_carts:
  "public_carts (snd (insert_cart d uid rq u st)) = public_carts d
   \<or> (\<not> (\<exists>c \<in> set (public_carts d). carts_user_id c = u \<and> carts_status c = st)
      \<and> public_carts (snd (insert_cart d uid rq u st)) =
          public_carts d @ [\<lparr>carts_id = uuid_generate_v4 rq, carts_user_id = u, carts_status = st,
                              carts_created_at = NOW rq\<rparr>])"
  by (simp add: insert_cart_def Let_def)

lemma update_cart_status_carts:
  "public_carts (snd (update_cart_status d uid rq cid st)) = public_carts d
   \<or> public_carts (snd (update_cart_status d uid rq cid st)) =
        map (\<lambda>c. if policy_carts uid c \<and> carts_id c = cid then c\<lparr>carts_status := st\<rparr> else c)
          (public_carts d)
      \<and> distinct (map (\<lambda>c. (carts_user_id c, carts_status c))
          (public_carts (snd (update_cart_status d uid rq cid st))))"
  by (simp add: update_cart_status_def Let_def)

section \<open>One session, step by step\<close>

text \<open>
  The success path of \<open>checkout\<close>, and the handlers run on the example data: the user
  opens the shop, adds an item and checks out, then adds an item to the next cart and
  checks out again. Every request is delivered.
\<close>

lemma checkout_ordered:
  assumes "cartId s = Some cid" and "user s = Some u"
    and "select_cart_items_price d (user s) rq1 cid = Inr cartItems" and "cartItems \<noteq> []"
    and "reduce_total (Finite 0) cartItems = Some amount"
    and "insert_order d (user s) rq2 u cid amount ''completed'' = (Inr (), d2)"
  shows "checkout d s rq1 rq2 rq3 rq4 =
     (snd (insert_cart (snd (update_cart_status d2 (user s) rq3 cid ''checked_out''))
             (user s) rq4 u ''active''),
      (case fst (insert_cart (snd (update_cart_status d2 (user s) rq3 cid ''checked_out''))
                   (user s) rq4 u ''active'') of
         Inr c \<Rightarrow> s\<lparr>cartId := Some (carts_id c)\<rparr>
       | Inl e \<Rightarrow> s)\<lparr>checkingOut := False\<rparr>,
      Shown (Toast_success ''Order successful!''))"
  using assms by (cases cartItems) (simp_all add: checkout_def split_beta Let_def)

lemma run_cart_resolution:
  "loadOrCreateCart db_signed_up shop_new (sent 9) (sent 10) = (db_empty_cart, shop_alice, Silent)"
  by (simp add: loadOrCreateCart_def table_eval example_defs)

lemma run_add_sneakers:
  "addToCart db_empty_cart shop_alice (sent 9) (sent 20) 100 =
     (db_one_item, shop_alice, Shown (Toast_success ''Added to cart!''))"
  by (simp add: addToCart_def table_eval example_defs)

lemma select_sneakers:
  "select_cart_items_price db_one_item (Some 7) (sent k) 10 = Inr rows_sneakers"
  by (simp add: table_eval example_defs rows_sneakers_def price_7999 quantity_1)

lemma total_sneakers:
  "reduce_total (Finite 0) rows_sneakers = Some (Finite (5628795846771343 / 70368744177664))"
  by (simp add: rows_sneakers_def binary64_eval)

lemma order_sneakers:
  "insert_order db_one_item (Some 7) (sent 40) 7 10
     (Finite (5628795846771343 / 70368744177664)) ''completed'' =
   (Inr (), db_one_item\<lparr>public_orders := [order_of_alice 40 10 7999]\<rparr>)"
  by (simp add: insert_order_def stored_7999 policy_orders_def Let_def example_defs)

lemma run_first_checkout:
  "checkout db_one_item shop_alice (sent 9) (sent 40) (sent 9) (sent 11) =
     (db_first_checkout, shop_second, Shown (Toast_success ''Order successful!''))"
proof -
  have s: "cartId shop_alice = Some 10" "user shop_alice = Some 7"
    by (simp_all add: example_defs)
  have sel: "select_cart_items_price db_one_item (user shop_alice) (sent 9) 10 = Inr rows_sneakers"
    using select_sneakers by (simp add: s)
  have ne: "rows_sneakers \<noteq> []" by (simp add: rows_sneakers_def)
  have ord: "insert_order db_one_item (user shop_alice) (sent 40) 7 10
     (Finite (5628795846771343 / 70368744177664)) ''completed'' =
     (Inr (), db_one_item\<lparr>public_orders := [order_of_alice 40 10 7999]\<rparr>)"
    using order_sneakers by (simp add: s)
  have rest: "insert_cart
      (snd (update_cart_status (db_one_item\<lparr>public_orders := [order_of_alice 40 10 7999]\<rparr>)
              (Some 7) (sent 9) 10 ''checked_out''))
      (Some 7) (sent 11) 7 ''active'' = (Inr (cart_of_alice 11 ''active''), db_first_checkout)"
    by (simp add: table_eval example_defs)
  show ?thesis
    unfolding checkout_ordered [OF s sel ne total_sneakers ord]
    by (simp add: s rest) (simp add: example_defs)
qed

lemma run_add_yoga_mat:
  "addToCart db_first_checkout shop_second (sent 9) (sent 22) 101 =
     (db_second_cart, shop_second, Shown (Toast_success ''Added to cart!''))"
  by (simp add: addToCart_def table_eval example_defs)

lemma select_yoga_mat:
  "select_cart_items_price db_second_cart (Some 7) (sent k) 11 = Inr rows_yoga_mat"
  by (simp add: table_eval example_defs rows_yoga_mat_def price_3499 quantity_1)

lemma total_yoga_mat:
  "reduce_total (Finite 0) rows_yoga_mat = Some (Finite (4924404717552927 / 140737488355328))"
  by (simp add: rows_yoga_mat_def binary64_eval)

lemma order_yoga_mat:
  "insert_order db_second_cart (Some 7) (sent 41) 7 11
     (Finite (4924404717552927 / 140737488355328)) ''completed'' = (Inr (), db_second_checkout)"
  by (simp add: insert_order_def stored_3499 policy_orders_def Let_def example_defs)

lemma run_second_checkout:
  "checkout db_second_cart shop_second (sent 9) (sent 41) (sent 9) (sent 12) =
     (db_second_checkout, shop_second, Shown (Toast_success ''Order successful!''))"
proof -
  have s: "cartId shop_second = Some 11" "user shop_second = Some 7"
    by (simp_all add: example_defs)
  have sel: "select_cart_items_price db_second_cart (user shop_second) (sent 9) 11 = Inr rows_yoga_mat"
    using select_yoga_mat by (simp add: s)
  have ne: "rows_yoga_mat \<noteq> []" by (simp add: rows_yoga_mat_def)
  have ord: "insert_order db_second_cart (user shop_second) (sent 41) 7 11
     (Finite (4924404717552927 / 140737488355328)) ''completed'' = (Inr (), db_second_checkout)"
    using order_yoga_mat by (simp add: s)
  have upd: "update_cart_status db_second_checkout (Some 7) (sent 9) 11 ''checked_out'' =
      (Inl UniqueViolation, db_second_checkout)"
    by (simp add: table_eval example_defs)
  have ins: "insert_cart db_second_checkout (Some 7) (sent 12) 7 ''active'' =
      (Inl UniqueViolation, db_second_checkout)"
    by (simp add: table_eval example_defs)
  show ?thesis
    unfolding checkout_ordered [OF s sel ne total_yoga_mat ord]
    by (simp add: s upd ins) (simp add: example_defs)
qed

lemma reachable_db_signed_up: "reachable db_signed_up"
  by (rule reachable.migrated) (simp_all add: db_signed_up_def)

lemma reachable_db_empty_cart: "reachable db_empty_cart"
  using reachable.cart_resolution [OF reachable_db_signed_up, of shop_new "sent 9" "sent 10"]
  by (simp add: run_cart_resolution)

lemma reachable_db_one_item: "reachable db_one_item"
  using reachable.add_to_cart [OF reachable_db_empty_cart, of shop_alice "sent 9" "sent 20" 100]
  by (simp add: run_add_sneakers)

lemma reachable_db_first_checkout: "reachable db_first_checkout"
  using reachable.checked_out [OF reachable_db_one_item, of shop_alice "sent 9" "sent 40" "sent 9" "sent 11"]
  by (simp add: run_first_checkout)

lemma reachable_db_second_cart: "reachable db_second_cart"
  using reachable.add_to_cart [OF reachable_db_first_checkout, of shop_second "sent 9" "sent 22" 101]
  by (simp add: run_add_yoga_mat)

section \<open>The handlers keep the active cart unique\<close>

lemma insert_cart_active_unique:
  assumes "active_unique d"
  shows "active_unique (snd (insert_cart d uid rq u st))"
proof -
  from insert_cart_carts [of d uid rq u st] show ?thesis
  proof
    assume "public_carts (snd (insert_cart d uid rq u st)) = public_carts d"
    with assms show ?thesis by (simp add: active_unique_def carts_of_def)
  next
    assume new: "\<not> (\<exists>c \<in> set (public_carts d). carts_user_id c = u \<and> carts_status c = st)
      \<and> public_carts (snd (insert_cart d uid rq u st)) =
          public_carts d @ [\<lparr>carts_id = uuid_generate_v4 rq, carts_user_id = u, carts_status = st,
                              carts_created_at = NOW rq\<rparr>]"
    then have none: "[c \<leftarrow> public_carts d. carts_user_id c = u \<and> carts_status c = st] = []"
      by (auto simp: filter_empty_conv)
    show ?thesis
      unfolding active_unique_def carts_of_def
    proof
      fix v
      show "length [c \<leftarrow> public_carts (snd (insert_cart d uid rq u st)).
                      carts_user_id c = v \<and> carts_status c = ''active''] \<le> 1"
        using new none assms [unfolded active_unique_def carts_of_def, rule_format, of v]
        by (cases "v = u \<and> st = ''active''") auto
    qed
  qed
qed

lemma length_filter_map_le:
  assumes "\<And>x. x \<in> set xs \<Longrightarrow> P (f x) \<Longrightarrow> P x"
  shows "length (filter P (map f xs)) \<le> length (filter P xs)"
  using assms by (induction xs) auto

lemma update_cart_status_active_unique:
  assumes "active_unique d" and "st \<noteq> ''active''"
  shows "active_unique (snd (update_cart_status d uid rq cid st))"
proof -
  from update_cart_status_carts [of d uid rq cid st] show ?thesis
  proof
    assume "public_carts (snd (update_cart_status d uid rq cid st)) = public_carts d"
    with assms show ?thesis by (simp add: active_unique_def carts_of_def)
  next
    assume upd: "public_carts (snd (update_cart_status d uid rq cid st)) =
        map (\<lambda>c. if policy_carts uid c \<and> carts_id c = cid then c\<lparr>carts_status := st\<rparr> else c)
          (public_carts d)
      \<and> distinct (map (\<lambda>c. (carts_user_id c, carts_status c))
          (public_carts (snd (update_cart_status d uid rq cid st))))"
    show ?thesis
      unfolding active_unique_def carts_of_def
    proof
      fix v
      have "length [c \<leftarrow> map (\<lambda>c. if policy_carts uid c \<and> carts_id c = cid
                                    then c\<lparr>carts_status := st\<rparr> else c) (public_carts d).
                      carts_user_id c = v \<and> carts_status c = ''active'']
            \<le> length [c \<leftarrow> public_carts d. carts_user_id c = v \<and> carts_status c = ''active'']"
        using assms(2) by (intro length_filter_map_le) (auto split: if_splits)
      also have "\<dots> \<le> 1"
        using assms(1) by (simp add: active_unique_def carts_of_def)
      finally show "length [c \<leftarrow> public_carts (snd (update_cart_status d uid rq cid st)).
                      carts_user_id c = v \<and> carts_status c = ''active''] \<le> 1"
        using upd by simp
    qed
  qed
qed

lemma insert_cart_item_active_unique:
  "active_unique (snd (insert_cart_item d uid rq cid iid q)) = active_unique d"
  by (simp add: active_unique_def carts_of_def)

lemma insert_order_active_unique:
  "active_unique (snd (insert_order d uid rq u cid amount st)) = active_unique d"
  by (simp add: active_unique_def carts_of_def)

lemma loadOrCreateCart_preserves:
  assumes "P d" and "\<And>uid u. P (snd (insert_cart d uid rq2 u ''active''))"
  shows "P (fst (loadOrCreateCart d s rq1 rq2))"
  using assms
  by (simp add: loadOrCreateCart_def split_beta split: option.splits sum.splits)

lemma addToCart_preserves:
  assumes "P d" and "\<And>uid cid. P (snd (insert_cart_item d uid rq2 cid itemId 1))"
  shows "P (fst (addToCart d s rq1 rq2 itemId))"
  using assms
  by (simp add: addToCart_def split_beta split: option.splits sum.splits)

lemma checkout_preserves:
  assumes "P d"
    and "\<And>uid u cid amount. P (snd (insert_order d uid rq2 u cid amount ''completed''))"
    and "\<And>uid u cid amount.
      P (snd (insert_cart
        (snd (update_cart_status (snd (insert_order d uid rq2 u cid amount ''completed''))
           uid rq3 cid ''checked_out''))
        uid rq4 u ''active''))"
  shows "P (fst (checkout d s rq1 rq2 rq3 rq4))"
proof (cases "cartId s")
  case None
  then show ?thesis using assms(1) by (simp add: checkout_def)
next
  case cid: (Some cid)
  show ?thesis
  proof (cases "user s")
    case None
    then show ?thesis using assms(1) cid by (simp add: checkout_def)
  next
    case u: (Some u)
    show ?thesis
    proof (cases "select_cart_items_price d (user s) rq1 cid")
      case (Inl e)
      then show ?thesis using assms(1) cid u by (simp add: checkout_def)
    next
      case rows: (Inr cartItems)
      show ?thesis
      proof (cases "cartItems = []")
        case True
        then show ?thesis using assms(1) cid u rows by (simp add: checkout_def)
      next
        case False
        then obtain r rs where cons: "cartItems = r # rs" by (cases cartItems) auto
        show ?thesis
        proof (cases "reduce_total (Finite 0) cartItems")
          case None
          then show ?thesis using assms(1) cid u rows cons by (simp add: checkout_def)
        next
          case amount: (Some amount)
          show ?thesis
          proof (cases "fst (insert_order d (user s) rq2 u cid amount ''completed'')")
            case (Inl e)
            then show ?thesis
              using assms(2) [of "user s" u cid amount] cid u rows cons amount
              by (simp add: checkout_def split_beta)
          next
            case (Inr x)
            then show ?thesis
              using assms(3) [of "user s" u cid amount] cid u rows cons amount
              by (simp add: checkout_def split_beta Let_def split: sum.splits)
          qed
        qed
      qed
    qed
  qed
qed

lemma loadOrCreateCart_active_unique:
  "active_unique d \<Longrightarrow> active_unique (fst (loadOrCreateCart d s rq1 rq2))"
  by (rule loadOrCreateCart_preserves [where P = active_unique])
    (simp_all add: insert_cart_active_unique)

lemma addToCart_active_unique:
  "active_unique d \<Longrightarrow> active_unique (fst (addToCart d s rq1 rq2 itemId))"
  by (rule addToCart_preserves [where P = active_unique])
    (simp_all add: insert_cart_item_active_unique)

lemma checkout_active_unique:
  "active_unique d \<Longrightarrow> active_unique (fst (checkout d s rq1 rq2 rq3 rq4))"
  by (rule checkout_preserves [where P = active_unique])
    (simp_all add: insert_order_active_unique insert_cart_active_unique
       update_cart_status_active_unique)

lemma reachable_active_unique: "reachable d \<Longrightarrow> active_unique d"
proof (induction rule: reachable.induct)
  case (migrated d)
  then show ?case by (simp add: active_unique_def carts_of_def)
next
  case (signup d t new d')
  then show ?case
    using on_auth_user_created_carts [of d t new d'] by (simp add: active_unique_def carts_of_def)
next
  case (cart_resolution d s rq1 rq2)
  then show ?case by (simp add: loadOrCreateCart_active_unique)
next
  case (add_to_cart d s rq1 rq2 itemId)
  then show ?case by (simp add: addToCart_active_unique)
next
  case (checked_out d s rq1 rq2 rq3 rq4)
  then show ?case by (simp add: checkout_active_unique)
qed


lemma checkout_cases [case_names silent empty type_error order_failed ordered]:
  obtains
    "cartId s = None \<or> user s = None"
      "checkout d s rq1 rq2 rq3 rq4 = (d, s, Silent)"
  | "checkout d s rq1 rq2 rq3 rq4 =
       (d, s\<lparr>checkingOut := False\<rparr>, Shown (Toast_error ''Cart is empty''))"
  | "checkout d s rq1 rq2 rq3 rq4 = (d, s\<lparr>checkingOut := True\<rparr>, Uncaught_TypeError)"
  | "checkout d s rq1 rq2 rq3 rq4 =
       (d, s\<lparr>checkingOut := False\<rparr>, Shown (Toast_error ''Failed to create order''))"
  | cid u amount d2 where "cartId s = Some cid" "user s = Some u"
      "insert_order d (user s) rq2 u cid amount ''completed'' = (Inr (), d2)"
      "checkout d s rq1 rq2 rq3 rq4 =
         (snd (insert_cart (snd (update_cart_status d2 (user s) rq3 cid ''checked_out''))
                 (user s) rq4 u ''active''),
          (case fst (insert_cart (snd (update_cart_status d2 (user s) rq3 cid ''checked_out''))
                       (user s) rq4 u ''active'') of
             Inr c \<Rightarrow> s\<lparr>cartId := Some (carts_id c)\<rparr>
           | Inl e \<Rightarrow> s)\<lparr>checkingOut := False\<rparr>,
          Shown (Toast_success ''Order successful!''))"
proof (cases "cartId s")
  case None
  then show ?thesis using that(1) by (simp add: checkout_def)
next
  case cid: (Some cid)
  show ?thesis
  proof (cases "user s")
    case None
    then show ?thesis using that(1) cid by (simp add: checkout_def)
  next
    case u: (Some u)
    show ?thesis
    proof (cases "select_cart_items_price d (user s) rq1 cid")
      case (Inl e)
      then show ?thesis using that(2) cid u by (simp add: checkout_def)
    next
      case rows: (Inr cartItems)
      show ?thesis
      proof (cases "cartItems = []")
        case True
        then show ?thesis using that(2) cid u rows by (simp add: checkout_def)
      next
        case False
        then obtain r rs where cons: "cartItems = r # rs" by (cases cartItems) auto
        show ?thesis
        proof (cases "reduce_total (Finite 0) cartItems")
          case None
          then show ?thesis using that(3) cid u rows cons by (simp add: checkout_def)
        next
          case amount: (Some amount)
          obtain res d2 where ins: "insert_order d (user s) rq2 u cid amount ''completed'' = (res, d2)"
            by (cases "insert_order d (user s) rq2 u cid amount ''completed''") auto
          show ?thesis
          proof (cases res)
            case (Inl e)
            with ins have "d2 = d" using insert_order_error_unchanged by blast
            with Inl ins show ?thesis
              using that(4) cid u rows cons amount by (simp add: checkout_def)
          next
            case (Inr x)
            with ins show ?thesis
              using that(5) [of cid u amount d2] cid u rows cons amount
              by (simp add: checkout_def split_beta Let_def)
          qed
        qed
      qed
    qed
  qed
qed

section \<open>At most one active cart\<close>

text \<open>
  Claim C3. In every reachable database every user has at most one cart with status
  \<open>active\<close>; and from any database with that property, cart resolution
  (\<open>loadOrCreateCart\<close>), add-to-cart and checkout lead to a database with that property
  again, whatever the page state and whatever happens to the requests.
\<close>

theorem active_cart_unique:
  "(reachable d \<longrightarrow> length (carts_of d u ''active'') \<le> 1)
   \<and> (active_unique d \<longrightarrow>
        active_unique (fst (loadOrCreateCart d s rq1 rq2))
      \<and> active_unique (fst (addToCart d s rq1 rq2 itemId))
      \<and> active_unique (fst (checkout d s rq1 rq2 rq3 rq4)))"
proof (intro conjI impI)
  assume "reachable d"
  then have "active_unique d" by (rule reachable_active_unique)
  then show "length (carts_of d u ''active'') \<le> 1" by (simp add: active_unique_def)
next
  assume "active_unique d"
  then show "active_unique (fst (loadOrCreateCart d s rq1 rq2))"
    by (rule loadOrCreateCart_active_unique)
next
  assume "active_unique d"
  then show "active_unique (fst (addToCart d s rq1 rq2 itemId))"
    by (rule addToCart_active_unique)
next
  assume "active_unique d"
  then show "active_unique (fst (checkout d s rq1 rq2 rq3 rq4))"
    by (rule checkout_active_unique)
qed

theorem active_cart_unique_witness:
  "reachable db_second_cart
   \<and> length (carts_of db_second_cart 7 ''active'') \<le> 1
   \<and> active_unique db_second_cart
   \<and> active_unique (fst (loadOrCreateCart db_second_cart shop_second (sent 9) (sent 23)))
   \<and> active_unique (fst (addToCart db_second_cart shop_second (sent 9) (sent 23) 100))
   \<and> active_unique (fst (checkout db_second_cart shop_second (sent 9) (sent 23) (sent 9) (sent 12)))"
  using active_cart_unique [where d = db_second_cart and u = 7 and s = shop_second
      and ?rq1.0 = "sent 9" and ?rq2.0 = "sent 23" and itemId = 100
      and ?rq3.0 = "sent 9" and ?rq4.0 = "sent 12"]
    reachable_db_second_cart reachable_active_unique [OF reachable_db_second_cart]
  by blast

section \<open>At most one cart of each status\<close>

lemma distinct_map_filter_le:
  "distinct (map f xs) \<Longrightarrow> length [x \<leftarrow> xs. f x = k] \<le> 1"
proof (induction xs)
  case Nil
  then show ?case by simp
next
  case (Cons x xs)
  show ?case
  proof (cases "f x = k")
    case True
    have "f x \<notin> f ` set xs" using Cons.prems by simp
    then have "\<forall>y \<in> set xs. f y \<noteq> f x" by (metis imageI)
    with True have "\<forall>y \<in> set xs. f y \<noteq> k" by simp
    then have "[y \<leftarrow> xs. f y = k] = []"
      by (simp add: filter_empty_conv)
    with True show ?thesis by simp
  next
    case False
    with Cons show ?thesis by simp
  qed
qed

lemma carts_unique_count: "carts_unique d \<Longrightarrow> length (carts_of d u st) \<le> 1"
  using distinct_map_filter_le [of "\<lambda>c. (carts_user_id c, carts_status c)" "public_carts d" "(u, st)"]
  by (simp add: carts_unique_def carts_of_def)

lemma insert_cart_carts_unique:
  "carts_unique d \<Longrightarrow> carts_unique (snd (insert_cart d uid rq u st))"
  using insert_cart_carts [of d uid rq u st]
  by (auto simp: carts_unique_def)

lemma update_cart_status_carts_unique:
  "carts_unique d \<Longrightarrow> carts_unique (snd (update_cart_status d uid rq cid st))"
  using update_cart_status_carts [of d uid rq cid st]
  by (auto simp: carts_unique_def)

lemma insert_order_carts_unique:
  "carts_unique (snd (insert_order d uid rq u cid amount st)) = carts_unique d"
  by (simp add: carts_unique_def)

lemma insert_cart_item_carts_unique:
  "carts_unique (snd (insert_cart_item d uid rq cid iid q)) = carts_unique d"
  by (simp add: carts_unique_def)

lemma reachable_carts_unique: "reachable d \<Longrightarrow> carts_unique d"
proof (induction rule: reachable.induct)
  case (migrated d)
  then show ?case by (simp add: carts_unique_def)
next
  case (signup d t new d')
  then show ?case
    using on_auth_user_created_carts [of d t new d'] by (simp add: carts_unique_def)
next
  case (cart_resolution d s rq1 rq2)
  then show ?case
    by (intro loadOrCreateCart_preserves [where P = carts_unique])
      (simp_all add: insert_cart_carts_unique)
next
  case (add_to_cart d s rq1 rq2 itemId)
  then show ?case
    by (intro addToCart_preserves [where P = carts_unique])
      (simp_all add: insert_cart_item_carts_unique)
next
  case (checked_out d s rq1 rq2 rq3 rq4)
  then show ?case
    by (intro checkout_preserves [where P = carts_unique])
      (simp_all add: insert_order_carts_unique insert_cart_carts_unique
         update_cart_status_carts_unique)
qed

text \<open>The update of \<open>checkout\<close> is refused while the user has another cart that is
  already checked out.\<close>

lemma update_cart_status_blocked:
  assumes c: "c \<in> set (public_carts d)" "carts_user_id c = u" "carts_status c = ''active''"
    and c': "c' \<in> set (public_carts d)" "carts_user_id c' = u" "carts_status c' = ''checked_out''"
  shows "fst (update_cart_status d (Some u) rq (carts_id c) ''checked_out'') \<noteq> Inr ()
       \<and> snd (update_cart_status d (Some u) rq (carts_id c) ''checked_out'') = d"
proof -
  let ?upd = "\<lambda>x. if policy_carts (Some u) x \<and> carts_id x = carts_id c
                   then x\<lparr>carts_status := ''checked_out''\<rparr> else x"
  let ?key = "\<lambda>x. (carts_user_id x, carts_status x)"
  have ne: "c \<noteq> c'" using c(3) c'(3) by auto
  have eq: "?key (?upd c) = ?key (?upd c')"
    using c c' by (simp add: policy_carts_def)
  have "\<not> inj_on (\<lambda>x. ?key (?upd x)) (set (public_carts d))"
  proof
    assume "inj_on (\<lambda>x. ?key (?upd x)) (set (public_carts d))"
    from inj_onD [OF this eq c(1) c'(1)] ne show False by simp
  qed
  then have "\<not> distinct (map ?key (map ?upd (public_carts d)))"
    by (simp add: distinct_map comp_def)
  then show ?thesis
    by (simp add: update_cart_status_def Let_def)
qed

lemma insert_cart_blocked:
  assumes "c \<in> set (public_carts d)" "carts_user_id c = u" "carts_status c = st"
  shows "fst (insert_cart d uid rq u st) \<noteq> Inr row \<and> snd (insert_cart d uid rq u st) = d"
  using assms by (auto simp: insert_cart_def Let_def)


lemma checkout_blocked:
  assumes c: "c \<in> set (public_carts d)" "carts_user_id c = u" "carts_status c = ''active''"
    and c': "c' \<in> set (public_carts d)" "carts_user_id c' = u" "carts_status c' = ''checked_out''"
    and s: "user s = Some u" "cartId s = Some (carts_id c)"
  shows "public_carts (fst (checkout d s rq1 rq2 rq3 rq4)) = public_carts d
       \<and> cartId (fst (snd (checkout d s rq1 rq2 rq3 rq4))) = Some (carts_id c)"
proof (cases rule: checkout_cases
    [where s = s and d = d and ?rq1.0 = rq1 and ?rq2.0 = rq2 and ?rq3.0 = rq3 and ?rq4.0 = rq4])
  case (ordered cid v amount d2)
  then have cid: "cid = carts_id c" and v: "v = u" and us: "user s = Some u"
    using s by simp_all
  have carts2: "public_carts d2 = public_carts d"
    using insert_order_carts [of d "user s" rq2 v cid amount "''completed''"] ordered(3) by simp
  let ?d3 = "snd (update_cart_status d2 (user s) rq3 cid ''checked_out'')"
  have d3: "?d3 = d2"
    using update_cart_status_blocked [of c d2 u c' rq3] c c' carts2 cid us by simp
  have d4: "fst (insert_cart d2 (user s) rq4 u ''active'') \<noteq> Inr row
          \<and> snd (insert_cart d2 (user s) rq4 u ''active'') = d2" for row
    using insert_cart_blocked [of c d2 u "''active''" "user s" rq4 row] c carts2 by simp
  then have "\<exists>e. fst (insert_cart d2 (user s) rq4 u ''active'') = Inl e"
    by (cases "fst (insert_cart d2 (user s) rq4 u ''active'')") auto
  then show ?thesis
    using ordered(4) d3 d4 carts2 s v by auto
qed (use s in simp_all)

text \<open>
  Claim C10. In every reachable database every user has at most one cart with status
  \<open>checked_out\<close>, since the uniqueness constraint is on the pair of user and status.
  So when a user who already has a checked-out cart checks out the active cart \<open>c\<close>,
  the status update is refused and changes nothing, and the checkout as a whole leaves
  the carts table and the current cart id as they were.
\<close>

theorem checked_out_cart_unique:
  assumes "reachable d"
  shows "length (carts_of d u ''checked_out'') \<le> 1
     \<and> (c \<in> set (carts_of d u ''active'') \<and> carts_of d u ''checked_out'' \<noteq> [] \<longrightarrow>
          fst (update_cart_status d (Some u) rq (carts_id c) ''checked_out'') \<noteq> Inr ()
        \<and> snd (update_cart_status d (Some u) rq (carts_id c) ''checked_out'') = d
        \<and> (user s = Some u \<and> cartId s = Some (carts_id c) \<longrightarrow>
             public_carts (fst (checkout d s rq1 rq2 rq3 rq4)) = public_carts d
           \<and> cartId (fst (snd (checkout d s rq1 rq2 rq3 rq4))) = Some (carts_id c)))"
proof (intro conjI impI; (elim conjE)?)
  show "length (carts_of d u ''checked_out'') \<le> 1"
    using assms by (intro carts_unique_count reachable_carts_unique)
next
  assume "c \<in> set (carts_of d u ''active'')" and ne: "carts_of d u ''checked_out'' \<noteq> []"
  then have c: "c \<in> set (public_carts d)" "carts_user_id c = u" "carts_status c = ''active''"
    by (simp_all add: carts_of_def)
  from ne obtain c' where "c' \<in> set (carts_of d u ''checked_out'')"
    by (cases "carts_of d u ''checked_out''") auto
  then have c': "c' \<in> set (public_carts d)" "carts_user_id c' = u" "carts_status c' = ''checked_out''"
    by (simp_all add: carts_of_def)
  show "fst (update_cart_status d (Some u) rq (carts_id c) ''checked_out'') \<noteq> Inr ()"
    and "snd (update_cart_status d (Some u) rq (carts_id c) ''checked_out'') = d"
    using update_cart_status_blocked [OF c c'] by simp_all
  assume "user s = Some u" and "cartId s = Some (carts_id c)"
  then show "public_carts (fst (checkout d s rq1 rq2 rq3 rq4)) = public_carts d"
    and "cartId (fst (snd (checkout d s rq1 rq2 rq3 rq4))) = Some (carts_id c)"
    using checkout_blocked [OF c c'] by simp_all
qed


theorem checked_out_cart_unique_witness:
  "reachable db_second_cart
   \<and> carts_of db_second_cart 7 ''active'' = [cart_of_alice 11 ''active'']
   \<and> carts_of db_second_cart 7 ''checked_out'' = [cart_of_alice 10 ''checked_out'']
   \<and> fst (update_cart_status db_second_cart (Some 7) (sent 9) 11 ''checked_out'') \<noteq> Inr ()
   \<and> snd (update_cart_status db_second_cart (Some 7) (sent 9) 11 ''checked_out'') = db_second_cart
   \<and> public_carts (fst (checkout db_second_cart shop_second (sent 9) (sent 41) (sent 9) (sent 12)))
       = public_carts db_second_cart
   \<and> cartId (fst (snd (checkout db_second_cart shop_second (sent 9) (sent 41) (sent 9) (sent 12))))
       = Some 11"
proof -
  have a: "carts_of db_second_cart 7 ''active'' = [cart_of_alice 11 ''active'']"
    and b: "carts_of db_second_cart 7 ''checked_out'' = [cart_of_alice 10 ''checked_out'']"
    by (simp_all add: carts_of_def example_defs)
  have s: "user shop_second = Some 7" "cartId shop_second = Some (carts_id (cart_of_alice 11 ''active''))"
    by (simp_all add: example_defs)
  show ?thesis
    using checked_out_cart_unique [OF reachable_db_second_cart, where u = 7
        and c = "cart_of_alice 11 ''active''" and rq = "sent 9" and s = shop_second
        and ?rq1.0 = "sent 9" and ?rq2.0 = "sent 41" and ?rq3.0 = "sent 9" and ?rq4.0 = "sent 12"]
      a b s reachable_db_second_cart
    by (simp add: cart_of_alice_def)
qed

section \<open>The second checkout of a user\<close>

text \<open>
  Claim C1, at the second checkout of the example session. The user has the checked-out
  cart 10 of the first checkout and the active cart 11, which holds one item. The
  checkout is reported as successful and creates exactly one order row, but the status
  update and the insert of the next cart are both refused by
  \<^verbatim>\<open>UNIQUE(user_id, status)\<close>: cart 11 keeps the status \<open>active\<close> (it is not
  \<open>checked_out\<close>, as the claim requires), no new cart row exists, and the current cart
  id is still 11.
\<close>

theorem second_checkout_keeps_cart_active:
  "reachable db_second_cart
   \<and> carts_of db_second_cart 7 ''active'' = [cart_of_alice 11 ''active'']
   \<and> public_cart_items db_second_cart = [line 20 10 100, line 22 11 101]
   \<and> checkout db_second_cart shop_second (sent 9) (sent 41) (sent 9) (sent 12) =
       (db_second_checkout, shop_second, Shown (Toast_success ''Order successful!''))
   \<and> public_orders db_second_checkout = public_orders db_second_cart @ [order_of_alice 41 11 3499]
   \<and> public_carts db_second_checkout =
       [cart_of_alice 10 ''checked_out'', cart_of_alice 11 ''active'']
   \<and> cartId shop_second = Some 11"
  using reachable_db_second_cart run_second_checkout
  by (simp add: carts_of_def example_defs)


section \<open>Checkout of an empty cart\<close>

text \<open>
  Claim C5. When the page holds a cart id and a user, and the database has no cart item
  for that cart, \<open>checkout\<close> shows the error toast "Cart is empty" and returns the
  database as it was (so no order row is created); of the page state only
  \<open>checkingOut\<close> is written, back to \<open>False\<close>. This holds whether or not the four
  requests would have been delivered.
\<close>

theorem checkout_empty_cart:
  assumes "cartId s = Some cid" and "user s = Some u"
    and "\<forall>ci \<in> set (public_cart_items d). cart_items_cart_id ci \<noteq> cid"
  shows "checkout d s rq1 rq2 rq3 rq4 =
           (d, s\<lparr>checkingOut := False\<rparr>, Shown (Toast_error ''Cart is empty''))"
proof -
  have "[ci \<leftarrow> public_cart_items d. policy_cart_items d (user s) ci \<and> cart_items_cart_id ci = cid] = []"
    using assms(3) by (simp add: filter_empty_conv)
  then have "select_cart_items_price d (user s) rq1 cid = Inl TransportError
           \<or> select_cart_items_price d (user s) rq1 cid = Inr []"
    by (simp add: select_cart_items_price_def)
  then show ?thesis
    using assms(1,2) by (auto simp: checkout_def)
qed

theorem checkout_empty_cart_witness:
  "cartId shop_alice = Some 10 \<and> user shop_alice = Some 7
   \<and> public_cart_items db_empty_cart = []
   \<and> checkout db_empty_cart shop_alice (sent 30) (sent 31) (sent 32) (sent 33) =
       (db_empty_cart, shop_alice\<lparr>checkingOut := False\<rparr>, Shown (Toast_error ''Cart is empty''))
   \<and> public_orders db_empty_cart = []"
  using checkout_empty_cart [of shop_alice 10 7 db_empty_cart "sent 30" "sent 31" "sent 32" "sent 33"]
  by (simp add: example_defs)

section \<open>Checkout when the order cannot be created\<close>

text \<open>
  Claim C8. When the cart items were fetched, their total was computed and the insert of
  the order row fails (for whatever reason the database or the transport gives),
  \<open>checkout\<close> shows the error toast "Failed to create order" and returns the database
  as it was before the checkout: the cart status update and the new cart insert are not
  run, and the current cart id is kept.
\<close>

theorem checkout_order_insert_fails:
  assumes "cartId s = Some cid" and "user s = Some u"
    and "select_cart_items_price d (user s) rq1 cid = Inr cartItems" and "cartItems \<noteq> []"
    and "reduce_total (Finite 0) cartItems = Some amount"
    and "fst (insert_order d (user s) rq2 u cid amount ''completed'') = Inl e"
  shows "checkout d s rq1 rq2 rq3 rq4 =
           (d, s\<lparr>checkingOut := False\<rparr>, Shown (Toast_error ''Failed to create order''))"
proof -
  obtain d2 where ins: "insert_order d (user s) rq2 u cid amount ''completed'' = (Inl e, d2)"
    using assms(6) by (cases "insert_order d (user s) rq2 u cid amount ''completed''") auto
  then have "d2 = d" by (rule insert_order_error_unchanged)
  with ins assms(1-5) show ?thesis
    by (cases cartItems) (simp_all add: checkout_def)
qed

theorem checkout_order_insert_fails_witness:
  "checkout db_two_items shop_alice (sent 30) lost (sent 32) (sent 33) =
     (db_two_items, shop_alice\<lparr>checkingOut := False\<rparr>, Shown (Toast_error ''Failed to create order''))"
proof -
  have s: "cartId shop_alice = Some 10" "user shop_alice = Some 7"
    by (simp_all add: shop_alice_def shop_new_def)
  have sel: "select_cart_items_price db_two_items (user shop_alice) (sent 30) 10 = Inr rows_two_items"
    using select_two_items by (simp add: shop_alice_def shop_new_def)
  have ne: "rows_two_items \<noteq> []" by (simp add: rows_two_items_def)
  have ins: "fst (insert_order db_two_items (user shop_alice) lost 7 10
      (Finite (4045499102773903 / 35184372088832)) ''completed'') = Inl TransportError"
    by (simp add: insert_order_def lost_def)
  show ?thesis
    using checkout_order_insert_fails [OF s sel ne total_two_items ins] .
qed

section \<open>Adding an item to the cart\<close>

lemma insert_cart_item_existing:
  assumes "pair_rows d cid iid \<noteq> []"
  shows "snd (insert_cart_item d uid rq cid iid q) = d"
proof -
  from assms obtain ci where "ci \<in> set (pair_rows d cid iid)"
    by (cases "pair_rows d cid iid") auto
  then have "\<exists>ci \<in> set (public_cart_items d). cart_items_cart_id ci = cid \<and> cart_items_item_id ci = iid"
    by (auto simp: pair_rows_def)
  then show ?thesis by (simp add: insert_cart_item_def Let_def)
qed

lemma addToCart_existing_no_write:
  assumes "pair_rows d cid iid \<noteq> []" and "cartId s = Some cid"
  shows "fst (addToCart d s rq1 rq2 iid) = d"
  using assms insert_cart_item_existing [OF assms(1)]
  by (simp add: addToCart_def split_beta split: option.splits sum.splits)

lemma select_cart_item_owned:
  assumes "transport_ok rq" and "\<exists>c \<in> set (public_carts d). carts_id c = cid \<and> carts_user_id c = u"
  shows "select_cart_item d (Some u) rq cid iid = maybeSingle (pair_rows d cid iid)"
proof -
  have "[ci \<leftarrow> public_cart_items d.
           policy_cart_items d (Some u) ci \<and> cart_items_cart_id ci = cid \<and> cart_items_item_id ci = iid]
        = pair_rows d cid iid"
    unfolding pair_rows_def using assms(2)
    by (intro filter_cong) (auto simp: policy_cart_items_def)
  then show ?thesis using assms(1) by (simp add: select_cart_item_def)
qed

lemma maybeSingle_one: "length xs \<le> 1 \<Longrightarrow> xs \<noteq> [] \<Longrightarrow> \<exists>x. maybeSingle xs = Inr (Some x)"
  by (cases xs rule: maybeSingle.cases) auto

text \<open>
  Claim C4. The page holds the cart \<open>cid\<close> of its user, the table has at most one row for
  the cart and the item (the constraint \<^verbatim>\<open>UNIQUE(cart_id, item_id)\<close>), the item exists,
  both requests are delivered and the new row's id is fresh. Then: if a row for the pair
  exists, \<open>addToCart\<close> shows "Item already in cart" and returns the database as it was;
  if none exists, it appends exactly one row for the pair, with quantity 1; and after a
  second \<open>addToCart\<close> for the same item (whatever happens to its requests) the table
  holds exactly one row for the pair.
\<close>

theorem addToCart_idempotent:
  assumes s: "cartId s = Some cid" "user s = Some u"
    and own: "\<exists>c \<in> set (public_carts d). carts_id c = cid \<and> carts_user_id c = u"
    and uniq: "length (pair_rows d cid iid) \<le> 1"
    and item: "iid \<in> items_id ` set (public_items d)"
    and rq: "transport_ok rq1" "transport_ok rq2"
    and fresh: "uuid_generate_v4 rq2 \<notin> cart_items_id ` set (public_cart_items d)"
  shows "(pair_rows d cid iid \<noteq> [] \<longrightarrow>
            addToCart d s rq1 rq2 iid =
              (d, s\<lparr>addingToCart := None\<rparr>, Shown (Toast_info ''Item already in cart'')))
       \<and> (pair_rows d cid iid = [] \<longrightarrow>
            addToCart d s rq1 rq2 iid =
              (d\<lparr>public_cart_items := public_cart_items d @
                  [\<lparr>cart_items_id = uuid_generate_v4 rq2, cart_items_cart_id = cid,
                    cart_items_item_id = iid, cart_items_quantity = 1,
                    cart_items_created_at = NOW rq2\<rparr>]\<rparr>,
               s\<lparr>addingToCart := None\<rparr>, Shown (Toast_success ''Added to cart!'')))
       \<and> length (pair_rows (fst (addToCart (fst (addToCart d s rq1 rq2 iid))
                      (fst (snd (addToCart d s rq1 rq2 iid))) rq3 rq4 iid)) cid iid) = 1"
proof -
  have sel: "select_cart_item d (user s) rq1 cid iid = maybeSingle (pair_rows d cid iid)"
    using select_cart_item_owned [OF rq(1) own] s by simp
  have present: "addToCart d s rq1 rq2 iid =
      (d, s\<lparr>addingToCart := None\<rparr>, Shown (Toast_info ''Item already in cart''))"
    if "pair_rows d cid iid \<noteq> []"
  proof -
    from maybeSingle_one [OF uniq that] obtain x where "maybeSingle (pair_rows d cid iid) = Inr (Some x)" ..
    then show ?thesis using s sel by (simp add: addToCart_def)
  qed
  let ?row = "\<lparr>cart_items_id = uuid_generate_v4 rq2, cart_items_cart_id = cid,
                cart_items_item_id = iid, cart_items_quantity = 1,
                cart_items_created_at = NOW rq2\<rparr>"
  let ?d' = "d\<lparr>public_cart_items := public_cart_items d @ [?row]\<rparr>"
  have absent: "addToCart d s rq1 rq2 iid =
      (?d', s\<lparr>addingToCart := None\<rparr>, Shown (Toast_success ''Added to cart!''))"
    if "pair_rows d cid iid = []"
  proof -
    have none: "\<not> (\<exists>ci \<in> set (public_cart_items d).
                    cart_items_cart_id ci = cid \<and> cart_items_item_id ci = iid)"
      using that by (auto simp: pair_rows_def filter_empty_conv)
    have pol: "policy_cart_items d (user s) ?row"
      using own s by (auto simp: policy_cart_items_def)
    have cart: "cid \<in> carts_id ` set (public_carts d)" using own by auto
    have "insert_cart_item d (user s) rq2 cid iid 1 = (Inr (), ?d')"
      using none pol cart item rq(2) fresh by (simp add: insert_cart_item_def Let_def)
    then show ?thesis using s sel that by (simp add: addToCart_def)
  qed
  have twice: "length (pair_rows (fst (addToCart (fst (addToCart d s rq1 rq2 iid))
                      (fst (snd (addToCart d s rq1 rq2 iid))) rq3 rq4 iid)) cid iid) = 1"
  proof (cases "pair_rows d cid iid = []")
    case True
    have rows: "pair_rows ?d' cid iid = [?row]"
      using True by (simp add: pair_rows_def)
    have "fst (addToCart ?d' (s\<lparr>addingToCart := None\<rparr>) rq3 rq4 iid) = ?d'"
      by (rule addToCart_existing_no_write [of _ cid]) (simp_all add: rows s)
    then show ?thesis using absent [OF True] rows by simp
  next
    case False
    have "fst (addToCart d (s\<lparr>addingToCart := None\<rparr>) rq3 rq4 iid) = d"
      by (rule addToCart_existing_no_write [of _ cid]) (simp_all add: False s)
    moreover have "length (pair_rows d cid iid) = 1"
      using uniq False by (cases "pair_rows d cid iid") auto
    ultimately show ?thesis using present [OF False] by simp
  qed
  show ?thesis using present absent twice by blast
qed

theorem addToCart_idempotent_witness:
  "pair_rows db_empty_cart 10 100 = []
   \<and> addToCart db_empty_cart shop_alice (sent 9) (sent 20) 100 =
       (db_one_item, shop_alice, Shown (Toast_success ''Added to cart!''))
   \<and> pair_rows db_one_item 10 100 = [line 20 10 100]
   \<and> addToCart db_one_item shop_alice (sent 9) (sent 21) 100 =
       (db_one_item, shop_alice, Shown (Toast_info ''Item already in cart''))
   \<and> length (pair_rows (fst (addToCart (fst (addToCart db_empty_cart shop_alice (sent 9) (sent 20) 100))
        (fst (snd (addToCart db_empty_cart shop_alice (sent 9) (sent 20) 100)))
        (sent 9) (sent 21) 100)) 10 100) = 1"
proof -
  have s: "cartId shop_alice = Some 10" "user shop_alice = Some 7"
    by (simp_all add: example_defs)
  have a: "pair_rows db_empty_cart 10 100 = []" and b: "pair_rows db_one_item 10 100 = [line 20 10 100]"
    by (simp_all add: pair_rows_def example_defs)
  have own1: "\<exists>c \<in> set (public_carts db_empty_cart). carts_id c = 10 \<and> carts_user_id c = 7"
    and own2: "\<exists>c \<in> set (public_carts db_one_item). carts_id c = 10 \<and> carts_user_id c = 7"
    by (simp_all add: example_defs)
  have item1: "100 \<in> items_id ` set (public_items db_empty_cart)"
    and item2: "100 \<in> items_id ` set (public_items db_one_item)"
    by (simp_all add: example_defs)
  have t: "transport_ok (sent k)" for k by (simp add: sent_def)
  have f1: "uuid_generate_v4 (sent 20) \<notin> cart_items_id ` set (public_cart_items db_empty_cart)"
    and f2: "uuid_generate_v4 (sent 21) \<notin> cart_items_id ` set (public_cart_items db_one_item)"
    by (simp_all add: example_defs)
  have u1: "length (pair_rows db_empty_cart 10 100) \<le> 1" and u2: "length (pair_rows db_one_item 10 100) \<le> 1"
    by (simp_all add: a b)
  show ?thesis
    using addToCart_idempotent [OF s own1 u1 item1 t [of 9] t [of 20] f1,
        where ?rq3.0 = "sent 9" and ?rq4.0 = "sent 21"]
      addToCart_idempotent [OF s own2 u2 item2 t [of 9] t [of 21] f2,
        where ?rq3.0 = "sent 9" and ?rq4.0 = "sent 21"] a b
    by (simp add: example_defs)
qed


section \<open>A failed cart lookup\<close>

text \<open>
  Claim C7, at two inputs where the lookup of the active cart is lost in transport. The
  handler does not look at the error of the lookup, so it goes on to the insert. For a
  user without a cart the insert is delivered and creates cart 10: nothing is reported and
  the carts table has changed. For a user who has the active cart 10 the insert is
  refused by the uniqueness constraint: the user is told "Failed to create cart" and the
  page is left without a cart id, although the cart exists.
\<close>

theorem failed_cart_lookup_still_inserts:
  "select_cart db_signed_up (user shop_new) lost 7 ''active'' = Inl TransportError
   \<and> loadOrCreateCart db_signed_up shop_new lost (sent 10) = (db_empty_cart, shop_alice, Silent)
   \<and> public_carts db_signed_up = []
   \<and> public_carts db_empty_cart = [cart_of_alice 10 ''active'']
   \<and> select_cart db_empty_cart (user shop_new) lost 7 ''active'' = Inl TransportError
   \<and> loadOrCreateCart db_empty_cart shop_new lost (sent 11) =
       (db_empty_cart, shop_new, Shown (Toast_error ''Failed to create cart''))"
  by (simp add: loadOrCreateCart_def table_eval example_defs)

section \<open>Empty results and failed reads\<close>

text \<open>
  Claim C6 fails at the fetch of \<open>checkout\<close>: with an empty cart, the checkout whose
  fetch is lost and the checkout whose fetch returns no row show the same toast.
\<close>

theorem checkout_fetch_failure_looks_empty:
  "select_cart_items_price db_empty_cart (user shop_alice) lost 10 = Inl TransportError
   \<and> select_cart_items_price db_empty_cart (user shop_alice) (sent 9) 10 = Inr []
   \<and> checkout db_empty_cart shop_alice lost (sent 40) (sent 9) (sent 11) =
       (db_empty_cart, shop_alice, Shown (Toast_error ''Cart is empty''))
   \<and> checkout db_empty_cart shop_alice (sent 9) (sent 40) (sent 9) (sent 11) =
       (db_empty_cart, shop_alice, Shown (Toast_error ''Cart is empty''))"
  by (simp add: checkout_def table_eval example_defs)

text \<open>
  Claim C6 as amended. The item listing, the cart view and the order history tell a
  failed read from an empty result: a failed read shows an error toast, an empty result
  shows an informational toast (for the item listing: no toast, and the list of items
  becomes empty). The fetch of \<open>checkout\<close> shows the error toast "Cart is empty" in
  both cases.
\<close>

theorem read_sites:
  "(\<not> transport_ok rq \<longrightarrow>
      loadItems d s rq = (d, s, Shown (Toast_error ''Failed to load items'')))
   \<and> (transport_ok rq \<and> (\<forall>i \<in> set (public_items d). items_status i \<noteq> ''active'') \<longrightarrow>
      loadItems d s rq = (d, s\<lparr>items := []\<rparr>, Silent))
   \<and> (cartId s = Some cid \<and> \<not> transport_ok rq \<longrightarrow>
      viewCart d s rq = (d, s, Shown (Toast_error ''Failed to load cart'')))
   \<and> (cartId s = Some cid \<and> transport_ok rq
        \<and> (\<forall>ci \<in> set (public_cart_items d). cart_items_cart_id ci \<noteq> cid) \<longrightarrow>
      viewCart d s rq = (d, s, Shown (Toast_info ''Your cart is empty'')))
   \<and> (user s = Some u \<and> \<not> transport_ok rq \<longrightarrow>
      viewOrderHistory d s rq = (d, s, Shown (Toast_error ''Failed to load order history'')))
   \<and> (user s = Some u \<and> transport_ok rq
        \<and> (\<forall>ord \<in> set (public_orders d). orders_user_id ord \<noteq> u) \<longrightarrow>
      viewOrderHistory d s rq = (d, s, Shown (Toast_info ''No orders yet'')))
   \<and> (cartId s = Some cid \<and> user s = Some u
        \<and> (\<not> transport_ok rq \<or> (\<forall>ci \<in> set (public_cart_items d). cart_items_cart_id ci \<noteq> cid)) \<longrightarrow>
      checkout d s rq rq2 rq3 rq4 =
        (d, s\<lparr>checkingOut := False\<rparr>, Shown (Toast_error ''Cart is empty'')))"
proof (intro conjI impI; (elim conjE)?)
  assume "\<not> transport_ok rq"
  then show "loadItems d s rq = (d, s, Shown (Toast_error ''Failed to load items''))"
    by (simp add: loadItems_def select_items_def)
next
  assume "transport_ok rq" and "\<forall>i \<in> set (public_items d). items_status i \<noteq> ''active''"
  then have "select_items d rq ''active'' = Inr []"
    by (simp add: select_items_def order_desc_def filter_empty_conv)
  then show "loadItems d s rq = (d, s\<lparr>items := []\<rparr>, Silent)"
    by (simp add: loadItems_def)
next
  assume "cartId s = Some cid" and "\<not> transport_ok rq"
  then show "viewCart d s rq = (d, s, Shown (Toast_error ''Failed to load cart''))"
    by (simp add: viewCart_def select_cart_items_name_def)
next
  assume "cartId s = Some cid" and "transport_ok rq"
    and "\<forall>ci \<in> set (public_cart_items d). cart_items_cart_id ci \<noteq> cid"
  moreover from this have "select_cart_items_name d (user s) rq cid = Inr []"
    by (simp add: select_cart_items_name_def filter_empty_conv)
  ultimately show "viewCart d s rq = (d, s, Shown (Toast_info ''Your cart is empty''))"
    by (simp add: viewCart_def)
next
  assume "user s = Some u" and "\<not> transport_ok rq"
  then show "viewOrderHistory d s rq = (d, s, Shown (Toast_error ''Failed to load order history''))"
    by (simp add: viewOrderHistory_def select_orders_def)
next
  assume "user s = Some u" and "transport_ok rq"
    and "\<forall>ord \<in> set (public_orders d). orders_user_id ord \<noteq> u"
  moreover from this have "select_orders d (user s) rq u = Inr []"
    by (simp add: select_orders_def order_desc_def filter_empty_conv)
  ultimately show "viewOrderHistory d s rq = (d, s, Shown (Toast_info ''No orders yet''))"
    by (simp add: viewOrderHistory_def)
next
  assume s: "cartId s = Some cid" "user s = Some u"
    and "\<not> transport_ok rq \<or> (\<forall>ci \<in> set (public_cart_items d). cart_items_cart_id ci \<noteq> cid)"
  then have "select_cart_items_price d (user s) rq cid = Inl TransportError
           \<or> select_cart_items_price d (user s) rq cid = Inr []"
    by (auto simp: select_cart_items_price_def filter_empty_conv)
  then show "checkout d s rq rq2 rq3 rq4 =
      (d, s\<lparr>checkingOut := False\<rparr>, Shown (Toast_error ''Cart is empty''))"
    using s by (auto simp: checkout_def)
qed

theorem read_sites_witness:
  "loadItems db_signed_up shop_new lost =
     (db_signed_up, shop_new, Shown (Toast_error ''Failed to load items''))
   \<and> loadItems (db_signed_up\<lparr>public_items := []\<rparr>) shop_new (sent 9) =
     (db_signed_up\<lparr>public_items := []\<rparr>, shop_new, Silent)
   \<and> viewCart db_empty_cart shop_alice lost =
     (db_empty_cart, shop_alice, Shown (Toast_error ''Failed to load cart''))
   \<and> viewCart db_empty_cart shop_alice (sent 9) =
     (db_empty_cart, shop_alice, Shown (Toast_info ''Your cart is empty''))
   \<and> viewOrderHistory db_empty_cart shop_alice lost =
     (db_empty_cart, shop_alice, Shown (Toast_error ''Failed to load order history''))
   \<and> viewOrderHistory db_empty_cart shop_alice (sent 9) =
     (db_empty_cart, shop_alice, Shown (Toast_info ''No orders yet''))
   \<and> checkout db_empty_cart shop_alice lost (sent 40) (sent 9) (sent 11) =
     (db_empty_cart, shop_alice, Shown (Toast_error ''Cart is empty''))"
  using read_sites [of lost db_signed_up shop_new]
    read_sites [of "sent 9" "db_signed_up\<lparr>public_items := []\<rparr>" shop_new]
    read_sites [of lost db_empty_cart shop_alice 10 7 "sent 40" "sent 9" "sent 11"]
    read_sites [of "sent 9" db_empty_cart shop_alice 10 7]
  by (simp add: example_defs)



section \<open>The username of a new identity\<close>

text \<open>
  Claim C9 fails for an identity with neither a username in its metadata nor an email:
  \<^verbatim>\<open>COALESCE\<close> has no third argument, the username is \<^verbatim>\<open>NULL\<close>, the insert into
  \<^verbatim>\<open>profiles\<close> violates \<^verbatim>\<open>NOT NULL\<close> and the signup fails with it.
\<close>

theorem signup_without_name_or_email_fails:
  "jsonb_get_text (users_raw_user_meta_data nobody) ''username'' = None
   \<and> users_email nobody = None
   \<and> new_username nobody = None
   \<and> handle_new_user (db_signed_up\<lparr>auth_users := [alice, nobody]\<rparr>) 5 nobody = Inl NotNullViolation
   \<and> on_auth_user_created db_signed_up 5 nobody = Inl NotNullViolation"
  by (simp add: on_auth_user_created_def handle_new_user_def new_username_def split_part_1_def
      nobody_def example_defs)

text \<open>
  Claim C9 as amended. The username of the signup hook is the \<^verbatim>\<open>username\<close> field of
  the metadata when that is present and not null, otherwise the part of the email before
  the first \<^verbatim>\<open>@\<close> when the identity has an email, and otherwise there is none. With no
  username the hook fails with a not-null violation and creates no profile; with a
  username that no profile has yet (and no profile for the identity yet) the hook appends
  exactly one profile row with that username.
\<close>

theorem signup_username:
  "new_username new =
     (case jsonb_get_text (users_raw_user_meta_data new) ''username'' of
        Some n \<Rightarrow> Some n
      | None \<Rightarrow>
          (case users_email new of
             Some e \<Rightarrow> Some (takeWhile (\<lambda>c. c \<noteq> CHR ''@'') e)
           | None \<Rightarrow> None))
   \<and> (new_username new = None \<longrightarrow> handle_new_user d t new = Inl NotNullViolation)
   \<and> (new_username new = Some n
        \<and> users_id new \<in> users_id ` set (auth_users d)
        \<and> users_id new \<notin> profiles_id ` set (public_profiles d)
        \<and> n \<notin> profiles_username ` set (public_profiles d) \<longrightarrow>
      handle_new_user d t new =
        Inr (d\<lparr>public_profiles := public_profiles d @
              [\<lparr>profiles_id = users_id new, profiles_username = n, profiles_created_at = t\<rparr>]\<rparr>))"
  by (auto simp: new_username_def split_part_1_def handle_new_user_def
      split: option.splits)

theorem signup_username_witness:
  "new_username bob = Some ''bobby''
   \<and> new_username alice = Some ''alice''
   \<and> new_username nobody = None
   \<and> handle_new_user (db_signed_up\<lparr>auth_users := [alice, nobody]\<rparr>) 5 nobody = Inl NotNullViolation
   \<and> handle_new_user (db_signed_up\<lparr>auth_users := [alice, bob]\<rparr>) 5 bob =
       Inr (db_signed_up\<lparr>auth_users := [alice, bob], public_profiles :=
          public_profiles db_signed_up @
          [\<lparr>profiles_id = 9, profiles_username = ''bobby'', profiles_created_at = 5\<rparr>]\<rparr>)"
  using signup_username [of bob "db_signed_up\<lparr>auth_users := [alice, bob]\<rparr>" 5 "''bobby''"]
    signup_username [of alice] 
    signup_username [of nobody "db_signed_up\<lparr>auth_users := [alice, nobody]\<rparr>" 5]
  by (simp add: bob_def nobody_def example_defs)


section \<open>The checkout total\<close>

text \<open>\<open>floor_log\<close> is the floor of the logarithm, and an integer below \<open>2 ^ 53\<close> in
  magnitude is a binary64 number.\<close>

lemma floor_log_bounds:
  assumes "2 \<le> b" and "0 < x"
  shows "of_nat b powi (floor_log b x) \<le> x \<and> x < of_nat b powi (floor_log b x + 1)"
  using assms
proof (induction b x rule: floor_log.induct)
  case (1 b x)
  let ?B = "of_nat b :: rat"
  have B: "2 \<le> ?B" using "1.prems"(1) by simp
  then have B0: "?B \<noteq> 0" and Bpos: "0 < ?B" by simp_all
  have b0: "0 < b" using "1.prems"(1) by simp
  consider (ge) "?B \<le> x" | (lt) "x < 1" | (mid) "1 \<le> x" "x < ?B"
    by linarith
  then show ?case
  proof cases
    case ge
    have fl: "floor_log b x = floor_log b (x / ?B) + 1"
      using "1.prems"(1) ge by simp
    have "0 < x / ?B" using "1.prems"(2) Bpos by simp
    with "1.IH"(1) "1.prems" ge
    have IH: "?B powi (floor_log b (x / ?B)) \<le> x / ?B"
      "x / ?B < ?B powi (floor_log b (x / ?B) + 1)"
      by auto
    have p1: "?B powi (floor_log b (x / ?B) + 1) = ?B powi (floor_log b (x / ?B)) * ?B"
      by (rule power_int_add_1) (simp add: b0)
    have p2: "?B powi (floor_log b (x / ?B) + 1 + 1) = ?B powi (floor_log b (x / ?B) + 1) * ?B"
      by (rule power_int_add_1) (simp add: b0)
    from IH(1) have "?B powi (floor_log b (x / ?B)) * ?B \<le> x"
      by (simp only: pos_le_divide_eq [OF Bpos])
    moreover from IH(2) have "x < ?B powi (floor_log b (x / ?B) + 1) * ?B"
      by (simp only: pos_divide_less_eq [OF Bpos])
    ultimately show ?thesis using fl p1 p2 by simp
  next
    case lt
    have xb: "x < ?B" using lt B by linarith
    have fl: "floor_log b x = floor_log b (x * ?B) - 1"
      using "1.prems" lt by simp
    have "0 < x * ?B" using "1.prems"(2) Bpos by simp
    with "1.IH"(2) "1.prems" lt xb
    have IH: "?B powi (floor_log b (x * ?B)) \<le> x * ?B"
      "x * ?B < ?B powi (floor_log b (x * ?B) + 1)"
      by auto
    have p1: "?B powi (floor_log b (x * ?B)) = ?B powi (floor_log b (x * ?B) - 1) * ?B"
      by (rule power_int_minus_mult [symmetric]) (simp add: b0)
    have p2: "?B powi (floor_log b (x * ?B) + 1) = ?B powi (floor_log b (x * ?B)) * ?B"
      by (rule power_int_add_1) (simp add: b0)
    from IH(1) p1 have "?B powi (floor_log b (x * ?B) - 1) * ?B \<le> x * ?B" by simp
    then have "?B powi (floor_log b (x * ?B) - 1) \<le> x"
      using Bpos by (rule mult_right_le_imp_le)
    moreover from IH(2) p2 have "x * ?B < ?B powi (floor_log b (x * ?B)) * ?B" by simp
    then have "x < ?B powi (floor_log b (x * ?B))"
      using Bpos by (intro mult_right_less_imp_less [of x ?B]) simp_all
    ultimately show ?thesis using fl by simp
  next
    case mid
    then have "floor_log b x = 0" using "1.prems"(1) by simp
    then show ?thesis using mid by simp
  qed
qed

lemma round_half_even_of_int [simp]: "round_half_even (of_int m) = m"
  by (simp add: round_half_even_def)

lemma round_binary64_of_int:
  assumes "\<bar>n\<bar> < 2 ^ 53"
  shows "round_binary64 (of_int n) = Finite (of_int n)"
proof (cases "n = 0")
  case True
  then show ?thesis by (simp add: round_binary64_def)
next
  case False
  let ?x = "of_int n :: rat"
  let ?l = "floor_log 2 \<bar>?x\<bar>"
  have pos: "0 < \<bar>?x\<bar>" using False by simp
  have one: "1 \<le> \<bar>?x\<bar>"
  proof -
    have "1 \<le> \<bar>n\<bar>" using False by linarith
    then have "(1::rat) \<le> of_int \<bar>n\<bar>" by (simp only: of_int_1_le_iff)
    then show ?thesis by simp
  qed
  have lt: "\<bar>?x\<bar> < 2 ^ 53"
  proof -
    have "(of_int \<bar>n\<bar> :: rat) < of_int (2 ^ 53)" using assms by (simp only: of_int_less_iff)
    then show ?thesis by simp
  qed
  from floor_log_bounds [of 2 "\<bar>?x\<bar>"] pos
  have b: "2 powi ?l \<le> \<bar>?x\<bar>" "\<bar>?x\<bar> < 2 powi (?l + 1)" by simp_all
  have "(2::rat) powi ?l < 2 powi 53" using b(1) lt by simp
  then have up: "?l < 53" by (rule power_int_le_imp_less_exp [rotated]) simp_all
  have "(2::rat) powi 0 < 2 powi (?l + 1)" using one b(2) by simp
  then have "0 < ?l + 1" 
    by (metis less_irrefl not_less one_less_numeral_iff power_int_increasing
        semiring_norm(76) order.strict_trans2 less_imp_le)
  then have lo: "0 \<le> ?l" by simp
  define k where "k = nat (52 - ?l)"
  have e: "max (?l - 52) (- 1074) = - int k" using up lo by (simp add: k_def)
  have pw: "(2::rat) powi (- int k) = 1 / 2 ^ k"
    by (simp add: power_int_minus_divide)
  have q: "?x / 2 powi (- int k) = of_int (n * 2 ^ k)" by (simp add: pw)
  have y: "of_int (round_half_even (?x / 2 powi (- int k))) * 2 powi (- int k) = ?x"
    unfolding q round_half_even_of_int by (simp add: pw)
  have big: "\<not> (2 ^ 1024 \<le> \<bar>?x\<bar>)"
  proof -
    have "(2::rat) ^ 53 \<le> 2 ^ 1024" by (rule power_increasing) simp_all
    with lt show ?thesis by linarith
  qed
  show ?thesis
    using False big by (simp add: round_binary64_def Let_def e y del: of_int_abs)
qed


lemma magnitude_nonneg: "0 \<le> magnitude xs"
  unfolding magnitude_def by (induction xs) auto

lemma reduce_total_whole:
  assumes "whole_prices xs" and "\<bar>a\<bar> + magnitude xs < 2 ^ 53"
  shows "reduce_total (Finite (of_int a)) (fetched_rows xs) =
           Some (Finite (of_int a + exact_total xs))"
  using assms
proof (induction xs arbitrary: a)
  case Nil
  then show ?case by (simp add: fetched_rows_def exact_total_def)
next
  case (Cons x xs)
  obtain i p q where x: "x = (i, p, q)" by (cases x) auto
  let ?t = "p div 100 * q"
  from Cons.prems(1) have w: "100 dvd p" "\<bar>p\<bar> < 10 ^ 10" "\<bar>q\<bar> < 2 ^ 31" and ws: "whole_prices xs"
    by (simp_all add: whole_prices_def x)
  have mag: "magnitude (x # xs) = \<bar>?t\<bar> + magnitude xs"
    by (simp add: magnitude_def x)
  have rest: "0 \<le> magnitude xs" by (rule magnitude_nonneg)
  have pq: "(of_int p :: rat) / 100 = of_int (p div 100)"
  proof -
    from w(1) obtain k where "p = 100 * k" by (auto simp: dvd_def)
    then show ?thesis by simp
  qed
  have "\<bar>p div 100\<bar> \<le> \<bar>p\<bar>"
  proof -
    from w(1) obtain k where "p = 100 * k" by (auto simp: dvd_def)
    then show ?thesis by (simp add: abs_mult)
  qed
  with w(2) have "\<bar>p div 100\<bar> < 2 ^ 53" by simp
  then have price: "number_of_decimal p = Finite (of_int (p div 100))"
    by (simp add: number_of_decimal_def pq round_binary64_of_int del: of_int_abs)
  have "\<bar>q\<bar> < 2 ^ 53" using w(3) by simp
  then have quantity: "number_of_integer q = Finite (of_int q)"
    by (simp add: number_of_integer_def round_binary64_of_int)
  have "\<bar>?t\<bar> < 2 ^ 53" using Cons.prems(2) rest mag by linarith
  then have "round_binary64 (of_int ?t) = Finite (of_int ?t)"
    by (rule round_binary64_of_int)
  then have product:
    "round_binary64 (of_int (p div 100) * of_int q) = Finite (of_int (p div 100) * of_int q)"
    by simp
  have "\<bar>a + ?t\<bar> < 2 ^ 53" using Cons.prems(2) rest mag by linarith
  then have "round_binary64 (of_int (a + ?t)) = Finite (of_int (a + ?t))"
    by (rule round_binary64_of_int)
  then have sum:
    "round_binary64 (of_int a + of_int (p div 100) * of_int q) =
       Finite (of_int a + of_int (p div 100) * of_int q)"
    by simp
  have "\<bar>a + ?t\<bar> + magnitude xs < 2 ^ 53" using Cons.prems(2) mag by linarith
  from Cons.IH [OF ws this]
  have "reduce_total (Finite (of_int (a + ?t))) (fetched_rows xs) =
      Some (Finite (of_int (a + ?t) + exact_total xs))" .
  moreover have "exact_total (x # xs) = of_int p / 100 * of_int q + exact_total xs"
    by (simp add: exact_total_def x)
  then have "exact_total (x # xs) = of_int ?t + exact_total xs"
    by (simp only: pq of_int_mult)
  ultimately show ?case
    by (simp add: fetched_rows_def x price quantity product sum add.assoc)
qed

lemma stored_11498:
  "decimal_of_number (Finite (4045499102773903 / 35184372088832)) = Inr 11498"
  by (simp add: decimal_eval binary64_eval)

text \<open>
  Claim C2 fails at its own example. For one item priced 79.99 and one priced 34.99,
  each with quantity 1, the exact decimal sum is 114.98, but the total the program
  computes is the binary64 number \<open>4045499102773903 / 2 ^ 45\<close>: it is below 114.98, and
  below the binary64 number nearest to 114.98 as well, so the comparison of the total
  with \<^verbatim>\<open>114.98\<close> is false in JavaScript too.
\<close>

theorem checkout_total_drifts:
  "fetched_rows [(100, 7999, 1), (101, 3499, 1)] = rows_two_items
   \<and> exact_total [(100, 7999, 1), (101, 3499, 1)] = 11498 / 100
   \<and> reduce_total (Finite 0) rows_two_items = Some (Finite (4045499102773903 / 35184372088832))
   \<and> (4045499102773903 / 35184372088832 :: rat) < 11498 / 100
   \<and> round_binary64 (11498 / 100) = Finite (8090998205547807 / 70368744177664)
   \<and> (4045499102773903 / 35184372088832 :: rat) < 8090998205547807 / 70368744177664"
  by (simp add: fetched_rows_def exact_total_def rows_two_items_def price_7999 price_3499
      quantity_1 binary64_eval)

text \<open>
  Claim C2 as amended. The total is computed in binary64, left to right from 0. For rows
  with whole prices whose products sum to less than \<open>2 ^ 53\<close> in magnitude it is the exact
  decimal sum. For the example of the claim it is \<open>4045499102773903 / 2 ^ 45\<close>, and the
  column \<^verbatim>\<open>orders.total\<close>, \<^verbatim>\<open>DECIMAL(10, 2)\<close>, stores that number as 114.98.
\<close>

theorem checkout_total_whole_prices:
  "(whole_prices xs \<and> magnitude xs < 2 ^ 53 \<longrightarrow>
      reduce_total (Finite 0) (fetched_rows xs) = Some (Finite (exact_total xs)))
   \<and> reduce_total (Finite 0) (fetched_rows [(100, 7999, 1), (101, 3499, 1)]) =
       Some (Finite (4045499102773903 / 35184372088832))
   \<and> decimal_of_number (Finite (4045499102773903 / 35184372088832)) = Inr 11498"
proof (intro conjI impI)
  assume "whole_prices xs \<and> magnitude xs < 2 ^ 53"
  then show "reduce_total (Finite 0) (fetched_rows xs) = Some (Finite (exact_total xs))"
    using reduce_total_whole [of xs 0] by simp
next
  show "reduce_total (Finite 0) (fetched_rows [(100, 7999, 1), (101, 3499, 1)]) =
       Some (Finite (4045499102773903 / 35184372088832))"
    using total_two_items
    by (simp add: fetched_rows_def rows_two_items_def price_7999 price_3499 quantity_1)
next
  show "decimal_of_number (Finite (4045499102773903 / 35184372088832)) = Inr 11498"
    by (rule stored_11498)
qed

theorem checkout_total_whole_prices_witness:
  "whole_prices [(100, 8000, 1), (101, 3500, 2)]
   \<and> exact_total [(100, 8000, 1), (101, 3500, 2)] = 150
   \<and> reduce_total (Finite 0) (fetched_rows [(100, 8000, 1), (101, 3500, 2)]) = Some (Finite 150)"
proof -
  have w: "whole_prices [(100, 8000, 1), (101, 3500, 2)]"
    by (simp add: whole_prices_def)
  have m: "magnitude [(100, 8000, 1), (101, 3500, 2)] < 2 ^ 53"
    by (simp add: magnitude_def)
  have e: "exact_total [(100, 8000, 1), (101, 3500, 2)] = 150"
    by (simp add: exact_total_def)
  show ?thesis
    using checkout_total_whole_prices [of "[(100, 8000, 1), (101, 3500, 2)]"] w m e by simp
qed


end
